theory Spec2Isabelle
  imports Complex_Main "HOL-Library.Multiset"
begin

section \<open>Data model\<close>

text \<open>
  The documents of the store, as the Mongoose schemas declare them. A JavaScript Number
  that carries money is an exact rational here (binary rounding error of IEEE doubles is
  outside the model); a Number that carries a count is an integer. An ObjectId is a
  natural number, a Date is a natural number of clock ticks. Fields that no handler below
  reads (addresses, notes, gift flags, descriptions, reviews) are left out.
\<close>

type_synonym object_id = nat
type_synonym date = nat

text \<open>models/Cart.js: \<open>cartItemSchema.selectedVariants\<close>.\<close>

record selected_variant =
  sv_name :: string
  sv_value :: string
  sv_priceModifier :: rat

text \<open>models/Cart.js: \<open>cartItemSchema\<close>.\<close>

record cart_item =
  ci_id :: object_id
  ci_product :: object_id
  ci_quantity :: int
  ci_selectedVariants :: "selected_variant list"
  ci_price :: rat
  ci_addedAt :: date

text \<open>models/Cart.js: \<open>cartSchema\<close>.\<close>

record cart =
  cart_user :: object_id
  cart_items :: "cart_item list"
  cart_couponCode :: "string option"
  cart_discount :: rat
  cart_lastActivity :: date

text \<open>models/Product.js: \<open>productSchema\<close> (variants, images, inventory, status).\<close>

record variant_option =
  vo_value :: string
  vo_priceModifier :: rat

record product_variant =
  pv_name :: string
  pv_options :: "variant_option list"

record product =
  p_name :: string
  p_price :: rat
  p_images :: "string list"
  p_variants :: "product_variant list"
  inventory_quantity :: int
  inventory_trackQuantity :: bool
  p_status :: string

text \<open>models/Order.js: \<open>orderItemSchema\<close> and \<open>orderSchema\<close>.\<close>

record order_item =
  oi_product :: object_id
  oi_name :: string
  oi_image :: string
  oi_price :: rat
  oi_quantity :: int
  oi_selectedVariants :: "selected_variant list"

record pricing =
  pr_subtotal :: rat
  pr_shipping :: rat
  pr_tax :: rat
  pr_discount :: rat
  pr_total :: rat

record payment =
  pay_method :: string
  pay_status :: string
  pay_transactionId :: "string option"
  pay_paidAt :: "date option"
  pay_paymentIntentId :: "string option"

record history_entry =
  he_status :: string
  he_note :: string
  he_updatedBy :: "object_id option"
  he_updatedAt :: date

record order =
  o_user :: object_id
  o_orderNumber :: "string option"
  o_items :: "order_item list"
  o_pricing :: pricing
  o_payment :: payment
  o_status :: string
  o_actualDelivery :: "date option"
  o_statusHistory :: "history_entry list"
  o_couponCode :: "string option"

text \<open>The three collections. A cart is looked up by its (unique) user.\<close>

record db =
  products :: "object_id \<rightharpoonup> product"
  carts :: "object_id \<rightharpoonup> cart"
  orders :: "object_id \<rightharpoonup> order"

text \<open>The authenticated caller, as \<open>req.user\<close> carries it.\<close>

record user =
  user_id :: object_id
  user_role :: string

text \<open>The error responses of the handlers, with the HTTP status each is sent under.\<close>

datatype error =
    CartIsEmpty
  | ProductUnavailable string
  | InsufficientStock string int
  | InvalidStatus
  | OrderNotFound
  | NotCancellable string
  | ItemNotFound
  | PaymentNotCompleted
  | AccessDenied
  | ProductNotFound
  | ProductNotAvailable
  | OnlyInStock int
  | PaymentFailed string
  | WebhookSignature
  | InternalError

fun http_status :: "error \<Rightarrow> nat" where
  "http_status OrderNotFound = 404"
| "http_status ProductNotFound = 404"
| "http_status InternalError = 500"
| "http_status AccessDenied = 403"
| "http_status _ = 400"

section \<open>JavaScript arithmetic\<close>

text \<open>\<open>Math.round\<close>: the nearest integer, a tie going towards plus infinity.\<close>

definition Math_round :: "rat \<Rightarrow> int" where
  "Math_round x = \<lfloor>x + 1 / 2\<rfloor>"

text \<open>\<open>x || 0\<close> on a Number: a falsy number (zero) gives \<open>0\<close>.\<close>

definition or_zero :: "rat \<Rightarrow> rat" where
  "or_zero x = (if x = 0 then 0 else x)"

text \<open>\<open>Array.prototype.findIndex\<close>, \<open>None\<close> standing for \<open>-1\<close>.\<close>

fun findIndex :: "('a \<Rightarrow> bool) \<Rightarrow> 'a list \<Rightarrow> nat option" where
  "findIndex P [] = None"
| "findIndex P (x # xs) =
     (if P x then Some 0 else map_option Suc (findIndex P xs))"

section \<open>models/Cart.js\<close>

text \<open>
  \<open>selectedVariants.reduce((sum, variant) => sum + variant.priceModifier, 0)\<close>, used by
  the cart virtuals and by the order and validate handlers.
\<close>

definition variantPrice :: "selected_variant list \<Rightarrow> rat" where
  "variantPrice svs = foldl (\<lambda>sum variant. sum + sv_priceModifier variant) 0 svs"

text \<open>The virtuals \<open>totalItems\<close>, \<open>subtotal\<close> and \<open>total\<close>.\<close>

definition cart_totalItems :: "cart \<Rightarrow> int" where
  "cart_totalItems c = foldl (\<lambda>total item. total + ci_quantity item) 0 (cart_items c)"

definition cart_subtotal :: "cart \<Rightarrow> rat" where
  "cart_subtotal c =
     foldl (\<lambda>total item.
        total + (ci_price item + variantPrice (ci_selectedVariants item))
                 * of_int (ci_quantity item)) 0 (cart_items c)"

definition cart_total :: "cart \<Rightarrow> rat" where
  "cart_total c = max 0 (cart_subtotal c - cart_discount c)"

text \<open>The \<open>pre('save')\<close> hook: every save stamps \<open>lastActivity\<close>.\<close>

definition cart_save :: "date \<Rightarrow> cart \<Rightarrow> cart" where
  "cart_save now c = c\<lparr>cart_lastActivity := now\<rparr>"

text \<open>The predicate \<open>addItem\<close> hands to \<open>findIndex\<close>.\<close>

definition same_line :: "object_id \<Rightarrow> selected_variant list \<Rightarrow> cart_item \<Rightarrow> bool" where
  "same_line productId selectedVariants item =
     (if ci_product item \<noteq> productId then False
      else if length (ci_selectedVariants item) \<noteq> length selectedVariants then False
      else list_all (\<lambda>variant.
             list_ex (\<lambda>sv. sv_name sv = sv_name variant \<and> sv_value sv = sv_value variant)
               selectedVariants)
             (ci_selectedVariants item))"

text \<open>
  \<open>addItem\<close>. The identifier and the \<open>addedAt\<close> default of a pushed subdocument come
  from the environment, so they are arguments.
\<close>

definition addItem ::
  "cart \<Rightarrow> object_id \<Rightarrow> int \<Rightarrow> selected_variant list \<Rightarrow> rat \<Rightarrow> object_id \<Rightarrow> date \<Rightarrow> cart" where
  "addItem c productId quantity selectedVariants price new_id now =
     cart_save now
       (case findIndex (same_line productId selectedVariants) (cart_items c) of
          Some existingItemIndex \<Rightarrow>
            c\<lparr>cart_items := (cart_items c)
                [existingItemIndex :=
                   (cart_items c ! existingItemIndex)
                     \<lparr>ci_quantity :=
                        ci_quantity (cart_items c ! existingItemIndex) + quantity\<rparr>]\<rparr>
        | None \<Rightarrow>
            c\<lparr>cart_items := cart_items c @
                [\<lparr>ci_id = new_id, ci_product = productId, ci_quantity = quantity,
                  ci_selectedVariants = selectedVariants, ci_price = price,
                  ci_addedAt = now\<rparr>]\<rparr>)"

text \<open>\<open>items.pull(itemId)\<close> drops the subdocuments with that identifier.\<close>

definition pull :: "object_id \<Rightarrow> cart_item list \<Rightarrow> cart_item list" where
  "pull itemId items = filter (\<lambda>item. ci_id item \<noteq> itemId) items"

text \<open>
  \<open>updateItemQuantity\<close>: \<open>items.id(itemId)\<close> is the first subdocument with that
  identifier; the thrown \<open>Error\<close> is the left summand.
\<close>

definition updateItemQuantity :: "cart \<Rightarrow> object_id \<Rightarrow> int \<Rightarrow> date \<Rightarrow> error + cart" where
  "updateItemQuantity c itemId quantity now =
     (case findIndex (\<lambda>item. ci_id item = itemId) (cart_items c) of
        Some i \<Rightarrow>
          Inr (cart_save now
            (if quantity \<le> 0 then c\<lparr>cart_items := pull itemId (cart_items c)\<rparr>
             else c\<lparr>cart_items :=
                    (cart_items c)[i := (cart_items c ! i)\<lparr>ci_quantity := quantity\<rparr>]\<rparr>))
      | None \<Rightarrow> Inl ItemNotFound)"

definition removeItem :: "cart \<Rightarrow> object_id \<Rightarrow> date \<Rightarrow> cart" where
  "removeItem c itemId now = cart_save now (c\<lparr>cart_items := pull itemId (cart_items c)\<rparr>)"

definition clearCart :: "cart \<Rightarrow> date \<Rightarrow> cart" where
  "clearCart c now =
     cart_save now (c\<lparr>cart_items := [], cart_couponCode := None, cart_discount := 0\<rparr>)"

definition applyCoupon :: "cart \<Rightarrow> string \<Rightarrow> rat \<Rightarrow> date \<Rightarrow> cart" where
  "applyCoupon c couponCode discountAmount now =
     cart_save now (c\<lparr>cart_couponCode := Some couponCode, cart_discount := discountAmount\<rparr>)"

definition removeCoupon :: "cart \<Rightarrow> date \<Rightarrow> cart" where
  "removeCoupon c now = cart_save now (c\<lparr>cart_couponCode := None, cart_discount := 0\<rparr>)"

text \<open>\<open>new Cart({ user })\<close> with the schema defaults.\<close>

definition new_cart :: "object_id \<Rightarrow> date \<Rightarrow> cart" where
  "new_cart uid now =
     \<lparr>cart_user = uid, cart_items = [], cart_couponCode = None, cart_discount = 0,
      cart_lastActivity = now\<rparr>"

section \<open>models/Order.js\<close>

text \<open>\<open>updateStatus(newStatus, note = '', updatedBy = null)\<close>.\<close>

definition updateStatus ::
  "order \<Rightarrow> string \<Rightarrow> string \<Rightarrow> object_id option \<Rightarrow> date \<Rightarrow> order" where
  "updateStatus ord newStatus note updatedBy now =
     ord\<lparr>o_statusHistory := o_statusHistory ord @
            [\<lparr>he_status = newStatus, he_note = note, he_updatedBy = updatedBy,
              he_updatedAt = now\<rparr>],
         o_status := newStatus\<rparr>"

text \<open>\<open>markAsPaid(transactionId, paymentMethod = 'stripe')\<close>; the method is not stored.\<close>

definition markAsPaid :: "order \<Rightarrow> string \<Rightarrow> string \<Rightarrow> date \<Rightarrow> order" where
  "markAsPaid ord transactionId paymentMethod now =
     updateStatus
       (ord\<lparr>o_payment := (o_payment ord)
              \<lparr>pay_status := ''completed'', pay_transactionId := Some transactionId,
               pay_paidAt := Some now\<rparr>\<rparr>)
       ''confirmed'' ''Payment received'' None now"

text \<open>
  Saving a new order. Mongoose validates the document first and only then runs the
  \<open>pre('save')\<close> hooks, so the validators see the document as \<open>new Order\<close> built it.
  \<open>order_validate\<close> holds the schema's validators on the fields modelled here:
  \<open>required\<close> (for a string: present and not empty), \<open>min\<close> and \<open>enum\<close>.
\<close>

definition order_validate :: "order \<Rightarrow> bool" where
  "order_validate doc \<longleftrightarrow>
     (case o_orderNumber doc of None \<Rightarrow> False | Some n \<Rightarrow> n \<noteq> [])
     \<and> list_all (\<lambda>item. oi_name item \<noteq> [] \<and> oi_image item \<noteq> []
                       \<and> oi_price item \<ge> 0 \<and> oi_quantity item \<ge> 1) (o_items doc)
     \<and> pr_subtotal (o_pricing doc) \<ge> 0 \<and> pr_shipping (o_pricing doc) \<ge> 0
     \<and> pr_tax (o_pricing doc) \<ge> 0 \<and> pr_discount (o_pricing doc) \<ge> 0
     \<and> pr_total (o_pricing doc) \<ge> 0
     \<and> pay_method (o_payment doc) \<in> set [''stripe'', ''paypal'', ''cash_on_delivery'']
     \<and> pay_status (o_payment doc) \<in>
           set [''pending'', ''processing'', ''completed'', ''failed'', ''refunded'', ''cancelled'']
     \<and> o_status doc \<in>
           set [''pending'', ''confirmed'', ''processing'', ''shipped'', ''delivered'',
                ''cancelled'', ''returned'']"

text \<open>
  The \<open>pre('save')\<close> hook of a new order assigns the order number; the generated
  string (time stamp and random suffix) comes from the environment.
\<close>

definition order_pre_save :: "string \<Rightarrow> order \<Rightarrow> order" where
  "order_pre_save generated doc = doc\<lparr>o_orderNumber := Some generated\<rparr>"

section \<open>The product collection\<close>

text \<open>
  \<open>Product.findByIdAndUpdate(id, { $inc: { 'inventory.quantity': d } })\<close>: an atomic
  increment of one document, nothing when the identifier is unknown.
\<close>

definition inc_quantity ::
  "(object_id \<rightharpoonup> product) \<Rightarrow> object_id \<Rightarrow> int \<Rightarrow> (object_id \<rightharpoonup> product)" where
  "inc_quantity ps pid d =
     (case ps pid of
        None \<Rightarrow> ps
      | Some p \<Rightarrow> ps(pid \<mapsto> p\<lparr>inventory_quantity := inventory_quantity p + d\<rparr>))"

text \<open>The two passes over line items: the decrement of order creation, the restore.\<close>

definition decrement_inventory ::
  "(object_id \<rightharpoonup> product) \<Rightarrow> order_item list \<Rightarrow> (object_id \<rightharpoonup> product)" where
  "decrement_inventory ps orderItems =
     foldl (\<lambda>ps item. inc_quantity ps (oi_product item) (- oi_quantity item)) ps orderItems"

definition restore_inventory ::
  "(object_id \<rightharpoonup> product) \<Rightarrow> order_item list \<Rightarrow> (object_id \<rightharpoonup> product)" where
  "restore_inventory ps orderItems =
     foldl (\<lambda>ps item. inc_quantity ps (oi_product item) (oi_quantity item)) ps orderItems"

section \<open>routes/orders.js\<close>

text \<open>\<open>product.images[0]?.url || ''\<close> and \<open>product?.name || 'Unknown'\<close>.\<close>

definition first_image :: "product \<Rightarrow> string" where
  "first_image product = (case p_images product of [] \<Rightarrow> [] | url # _ \<Rightarrow> url)"

definition name_or_unknown :: "product \<Rightarrow> string" where
  "name_or_unknown product = (if p_name product = [] then ''Unknown'' else p_name product)"

text \<open>
  POST /orders, the loop over \<open>cart.items\<close>. The cart was read with its products
  populated, so \<open>cartItem.product\<close> is the current product document, or null.
\<close>

fun order_lines ::
  "(object_id \<rightharpoonup> product) \<Rightarrow> cart_item list \<Rightarrow> rat \<Rightarrow> order_item list
     \<Rightarrow> error + (rat \<times> order_item list)" where
  "order_lines ps [] subtotal orderItems = Inr (subtotal, orderItems)"
| "order_lines ps (cartItem # rest) subtotal orderItems =
     (case ps (ci_product cartItem) of
        None \<Rightarrow> Inl (ProductUnavailable ''Unknown'')
      | Some product \<Rightarrow>
          if p_status product \<noteq> ''active''
          then Inl (ProductUnavailable (name_or_unknown product))
          else if inventory_trackQuantity product
                  \<and> inventory_quantity product < ci_quantity cartItem
          then Inl (InsufficientStock (p_name product) (inventory_quantity product))
          else
            let itemPrice = p_price product + variantPrice (ci_selectedVariants cartItem);
                itemTotal = itemPrice * of_int (ci_quantity cartItem)
            in order_lines ps rest (subtotal + itemTotal)
                 (orderItems @
                    [\<lparr>oi_product = ci_product cartItem, oi_name = p_name product,
                      oi_image = first_image product, oi_price = itemPrice,
                      oi_quantity = ci_quantity cartItem,
                      oi_selectedVariants = ci_selectedVariants cartItem\<rparr>]))"

text \<open>The pricing block that follows the loop.\<close>

definition order_pricing :: "rat \<Rightarrow> rat \<Rightarrow> pricing" where
  "order_pricing subtotal cart_disc =
     (let shipping = (if subtotal \<ge> 100 then 0 else 10);
          tax = of_int (Math_round ((subtotal + shipping) * 0.085 * 100)) / 100;
          discount = or_zero cart_disc;
          total = subtotal + shipping + tax - discount
      in \<lparr>pr_subtotal = subtotal, pr_shipping = shipping, pr_tax = tax,
          pr_discount = discount, pr_total = total\<rparr>)"

text \<open>
  POST /orders up to \<open>new Order({...})\<close>: the cart is read, the lines are checked and
  priced, and the order document is built. No order number is given to it.
\<close>

definition new_order :: "db \<Rightarrow> user \<Rightarrow> string \<Rightarrow> error + (cart \<times> order)" where
  "new_order st u method =
     (case carts st (user_id u) of
        None \<Rightarrow> Inl CartIsEmpty
      | Some cart \<Rightarrow>
          if length (cart_items cart) = 0 then Inl CartIsEmpty
          else
            (case order_lines (products st) (cart_items cart) 0 [] of
               Inl e \<Rightarrow> Inl e
             | Inr (subtotal, orderItems) \<Rightarrow>
                 Inr (cart,
                   \<lparr>o_user = user_id u, o_orderNumber = None, o_items = orderItems,
                    o_pricing = order_pricing subtotal (cart_discount cart),
                    o_payment = \<lparr>pay_method = method, pay_status = ''pending'',
                                 pay_transactionId = None, pay_paidAt = None,
                                 pay_paymentIntentId = None\<rparr>,
                    o_status = ''pending'', o_actualDelivery = None,
                    o_statusHistory = [], o_couponCode = cart_couponCode cart\<rparr>)))"

text \<open>
  POST /orders. \<open>order.save()\<close> validates the document, and a rejection is caught by
  the handler's \<open>catch\<close>, which answers 500 and has written nothing. Past the save the
  hook has numbered the order, it is stored under a new identifier, the inventory is
  decremented line by line, and the cart is cleared.
\<close>

definition post_orders ::
  "db \<Rightarrow> user \<Rightarrow> string \<Rightarrow> object_id \<Rightarrow> string \<Rightarrow> date \<Rightarrow> db \<times> (error + order)" where
  "post_orders st u method new_id generated now =
     (case new_order st u method of
        Inl e \<Rightarrow> (st, Inl e)
      | Inr (cart, doc) \<Rightarrow>
          if \<not> order_validate doc then (st, Inl InternalError)
          else
            let ord = order_pre_save generated doc
            in (st\<lparr>orders := (orders st)(new_id \<mapsto> ord),
                   products := decrement_inventory (products st) (o_items ord),
                   carts := (carts st)(user_id u \<mapsto> clearCart cart now)\<rparr>,
                Inr ord))"

definition validStatuses :: "string list" where
  "validStatuses =
     [''pending'', ''confirmed'', ''processing'', ''shipped'', ''delivered'',
      ''cancelled'', ''returned'']"

text \<open>PUT /orders/:id/status, behind \<open>requireAdmin\<close>.\<close>

definition put_order_status ::
  "db \<Rightarrow> user \<Rightarrow> object_id \<Rightarrow> string \<Rightarrow> string \<Rightarrow> date \<Rightarrow> db \<times> (error + order)" where
  "put_order_status st u oid status note now =
     (if user_role u \<noteq> ''admin'' then (st, Inl AccessDenied)
      else if status \<notin> set validStatuses then (st, Inl InvalidStatus)
      else
        (case orders st oid of
           None \<Rightarrow> (st, Inl OrderNotFound)
         | Some found \<Rightarrow>
             let ord = updateStatus found status note (Some (user_id u)) now;
                 ps = (if status = ''cancelled'' \<and> pay_status (o_payment ord) = ''completed''
                       then restore_inventory (products st) (o_items ord)
                       else products st);
                 ord = (if status = ''delivered'' then ord\<lparr>o_actualDelivery := Some now\<rparr>
                        else ord)
             in (st\<lparr>products := ps, orders := (orders st)(oid \<mapsto> ord)\<rparr>, Inr ord)))"

definition cancelableStatuses :: "string list" where
  "cancelableStatuses = [''pending'', ''confirmed'', ''processing'']"

text \<open>\<open>reason || 'Cancelled by user'\<close>, the reason being absent or a string.\<close>

definition reason_or :: "string option \<Rightarrow> string \<Rightarrow> string" where
  "reason_or reason dflt =
     (case reason of None \<Rightarrow> dflt | Some r \<Rightarrow> if r = [] then dflt else r)"

text \<open>
  POST /orders/:id/cancel. A caller who is not an admin finds only orders of their own.
\<close>

definition post_order_cancel ::
  "db \<Rightarrow> user \<Rightarrow> object_id \<Rightarrow> string option \<Rightarrow> date \<Rightarrow> db \<times> (error + order)" where
  "post_order_cancel st u oid reason now =
     (case (case orders st oid of
              None \<Rightarrow> None
            | Some found \<Rightarrow>
                if user_role u \<noteq> ''admin'' \<and> o_user found \<noteq> user_id u then None
                else Some found) of
        None \<Rightarrow> (st, Inl OrderNotFound)
      | Some found \<Rightarrow>
          if o_status found \<notin> set cancelableStatuses
          then (st, Inl (NotCancellable (o_status found)))
          else
            let ord = updateStatus found ''cancelled'' (reason_or reason ''Cancelled by user'')
                        (Some (user_id u)) now;
                ps = (if pay_status (o_payment ord) = ''completed''
                      then restore_inventory (products st) (o_items ord)
                      else products st)
            in (st\<lparr>products := ps, orders := (orders st)(oid \<mapsto> ord)\<rparr>, Inr ord))"

section \<open>routes/payment.js\<close>

text \<open>What Stripe returns for a payment intent: the handlers read these three fields.\<close>

record payment_intent =
  pi_id :: string
  pi_status :: string
  pi_orderId :: object_id

text \<open>POST /payment/stripe/confirm, given the intent retrieved from Stripe.\<close>

definition stripe_confirm ::
  "db \<Rightarrow> user \<Rightarrow> payment_intent \<Rightarrow> date \<Rightarrow> db \<times> (error + order)" where
  "stripe_confirm st u paymentIntent now =
     (case orders st (pi_orderId paymentIntent) of
        None \<Rightarrow> (st, Inl OrderNotFound)
      | Some found \<Rightarrow>
          if user_role u \<noteq> ''admin'' \<and> o_user found \<noteq> user_id u then (st, Inl AccessDenied)
          else if pi_status paymentIntent = ''succeeded''
          then
            let ord = markAsPaid found (pi_id paymentIntent) ''stripe'' now
            in (st\<lparr>orders := (orders st)(pi_orderId paymentIntent \<mapsto> ord)\<rparr>, Inr ord)
          else
            let ord = updateStatus
                        (found\<lparr>o_payment := (o_payment found)\<lparr>pay_status := ''failed''\<rparr>\<rparr>)
                        ''pending'' ''Payment failed'' None now
            in (st\<lparr>orders := (orders st)(pi_orderId paymentIntent \<mapsto> ord)\<rparr>,
                Inl (PaymentFailed (pi_status paymentIntent))))"

text \<open>
  POST /payment/stripe/webhook. Whether the signature verifies is Stripe's answer, so it
  is an argument; the event is its type and the payment intent it carries.
\<close>

definition stripe_webhook ::
  "db \<Rightarrow> bool \<Rightarrow> string \<Rightarrow> payment_intent \<Rightarrow> date \<Rightarrow> db \<times> (error + unit)" where
  "stripe_webhook st signature_ok event_type paymentIntent now =
     (if \<not> signature_ok then (st, Inl WebhookSignature)
      else if event_type = ''payment_intent.succeeded'' then
        (case orders st (pi_orderId paymentIntent) of
           None \<Rightarrow> (st, Inr ())
         | Some found \<Rightarrow>
             if pay_status (o_payment found) \<noteq> ''completed''
             then (st\<lparr>orders := (orders st)(pi_orderId paymentIntent \<mapsto>
                         markAsPaid found (pi_id paymentIntent) ''stripe'' now)\<rparr>, Inr ())
             else (st, Inr ()))
      else if event_type = ''payment_intent.payment_failed'' then
        (case orders st (pi_orderId paymentIntent) of
           None \<Rightarrow> (st, Inr ())
         | Some found \<Rightarrow>
             (st\<lparr>orders := (orders st)(pi_orderId paymentIntent \<mapsto>
                 updateStatus
                   (found\<lparr>o_payment := (o_payment found)\<lparr>pay_status := ''failed''\<rparr>\<rparr>)
                   ''pending'' ''Payment failed'' None now)\<rparr>, Inr ()))
      else (st, Inr ()))"

text \<open>POST /payment/refund.\<close>

definition payment_refund ::
  "db \<Rightarrow> user \<Rightarrow> object_id \<Rightarrow> string option \<Rightarrow> date \<Rightarrow> db \<times> (error + order)" where
  "payment_refund st u orderId reason now =
     (if user_role u \<noteq> ''admin'' then (st, Inl AccessDenied)
      else
        (case orders st orderId of
           None \<Rightarrow> (st, Inl OrderNotFound)
         | Some found \<Rightarrow>
             if pay_status (o_payment found) \<noteq> ''completed''
             then (st, Inl PaymentNotCompleted)
             else
               let ord = updateStatus
                           (found\<lparr>o_payment := (o_payment found)\<lparr>pay_status := ''refunded''\<rparr>\<rparr>)
                           ''returned'' (reason_or reason ''Refunded by admin'')
                           (Some (user_id u)) now
               in (st\<lparr>orders := (orders st)(orderId \<mapsto> ord)\<rparr>, Inr ord)))"

section \<open>routes/cart.js\<close>

text \<open>GET /cart, the filter over the populated line items.\<close>

definition item_valid :: "(object_id \<rightharpoonup> product) \<Rightarrow> cart_item \<Rightarrow> bool" where
  "item_valid ps item =
     (case ps (ci_product item) of
        None \<Rightarrow> False
      | Some product \<Rightarrow>
          if p_status product \<noteq> ''active'' then False
          else if inventory_trackQuantity product
                  \<and> inventory_quantity product < ci_quantity item then False
          else True)"

text \<open>GET /cart. The response is \<open>{ cart }\<close> and nothing else.\<close>

definition get_cart :: "db \<Rightarrow> user \<Rightarrow> date \<Rightarrow> db \<times> cart" where
  "get_cart st u now =
     (let (st, cart) =
            (case carts st (user_id u) of
               None \<Rightarrow>
                 let cart = cart_save now (new_cart (user_id u) now)
                 in (st\<lparr>carts := (carts st)(user_id u \<mapsto> cart)\<rparr>, cart)
             | Some cart \<Rightarrow> (st, cart));
          validItems = filter (item_valid (products st)) (cart_items cart)
      in if length validItems \<noteq> length (cart_items cart)
         then
           let cart = cart_save now (cart\<lparr>cart_items := validItems\<rparr>)
           in (st\<lparr>carts := (carts st)(user_id u \<mapsto> cart)\<rparr>, cart)
         else (st, cart))"

text \<open>
  POST /cart/items, the loop that resolves the requested selections (name, value)
  against the product's variants.
\<close>

fun validated_variants ::
  "product_variant list \<Rightarrow> (string \<times> string) list \<Rightarrow> rat \<Rightarrow> selected_variant list
     \<Rightarrow> rat \<times> selected_variant list" where
  "validated_variants vs [] itemPrice validatedVariants = (itemPrice, validatedVariants)"
| "validated_variants vs ((name, val) # rest) itemPrice validatedVariants =
     (case find (\<lambda>v. pv_name v = name) vs of
        None \<Rightarrow> validated_variants vs rest itemPrice validatedVariants
      | Some productVariant \<Rightarrow>
          (case find (\<lambda>opt. vo_value opt = val) (pv_options productVariant) of
             None \<Rightarrow> validated_variants vs rest itemPrice validatedVariants
           | Some opt \<Rightarrow>
               validated_variants vs rest
                 (itemPrice + or_zero (vo_priceModifier opt))
                 (validatedVariants @
                    [\<lparr>sv_name = name, sv_value = val,
                      sv_priceModifier = or_zero (vo_priceModifier opt)\<rparr>])))"

text \<open>POST /cart/items.\<close>

definition post_cart_items ::
  "db \<Rightarrow> user \<Rightarrow> object_id \<Rightarrow> int \<Rightarrow> (string \<times> string) list \<Rightarrow> object_id \<Rightarrow> date
     \<Rightarrow> db \<times> (error + cart)" where
  "post_cart_items st u productId quantity selectedVariants new_id now =
     (case products st productId of
        None \<Rightarrow> (st, Inl ProductNotFound)
      | Some product \<Rightarrow>
          if p_status product \<noteq> ''active'' then (st, Inl ProductNotAvailable)
          else if inventory_trackQuantity product \<and> inventory_quantity product < quantity
          then (st, Inl (OnlyInStock (inventory_quantity product)))
          else
            let (itemPrice, validatedVariants) =
                  validated_variants (p_variants product) selectedVariants (p_price product) [];
                cart = (case carts st (user_id u) of
                          None \<Rightarrow> new_cart (user_id u) now
                        | Some cart \<Rightarrow> cart);
                cart = addItem cart productId quantity validatedVariants itemPrice new_id now
            in (st\<lparr>carts := (carts st)(user_id u \<mapsto> cart)\<rparr>, Inr cart))"

text \<open>POST /cart/validate: the issues it reports, and their \<open>type\<close> field.\<close>

datatype issue =
    Product_not_found object_id
  | Product_inactive object_id string
  | Out_of_stock object_id string
  | Insufficient_stock object_id string int int
  | Price_changed object_id string rat rat

fun issue_type :: "issue \<Rightarrow> string" where
  "issue_type (Product_not_found itemId) = ''product_not_found''"
| "issue_type (Product_inactive itemId productName) = ''product_inactive''"
| "issue_type (Out_of_stock itemId productName) = ''out_of_stock''"
| "issue_type (Insufficient_stock itemId productName requested available) =
     ''insufficient_stock''"
| "issue_type (Price_changed itemId productName oldPrice newPrice) = ''price_changed''"

text \<open>The loop over \<open>cart.items\<close>; a \<open>continue\<close> is a recursive call made early.\<close>

fun validate_items ::
  "(object_id \<rightharpoonup> product) \<Rightarrow> cart_item list \<Rightarrow> issue list \<Rightarrow> cart_item list
     \<Rightarrow> issue list \<times> cart_item list" where
  "validate_items ps [] issues validItems = (issues, validItems)"
| "validate_items ps (item # rest) issues validItems =
     (case ps (ci_product item) of
        None \<Rightarrow> validate_items ps rest (issues @ [Product_not_found (ci_id item)]) validItems
      | Some product \<Rightarrow>
          if p_status product \<noteq> ''active''
          then validate_items ps rest
                 (issues @ [Product_inactive (ci_id item) (p_name product)]) validItems
          else if inventory_trackQuantity product
                  \<and> inventory_quantity product < ci_quantity item
                  \<and> inventory_quantity product = 0
          then validate_items ps rest
                 (issues @ [Out_of_stock (ci_id item) (p_name product)]) validItems
          else
            let issues =
                  (if inventory_trackQuantity product
                      \<and> inventory_quantity product < ci_quantity item
                   then issues @ [Insufficient_stock (ci_id item) (p_name product)
                                    (ci_quantity item) (inventory_quantity product)]
                   else issues);
                currentPrice = p_price product + variantPrice (ci_selectedVariants item);
                issues =
                  (if \<bar>currentPrice - ci_price item\<bar> > 0.01
                   then issues @ [Price_changed (ci_id item) (p_name product)
                                    (ci_price item) currentPrice]
                   else issues)
            in validate_items ps rest issues (validItems @ [item]))"

record validate_response =
  vr_valid :: bool
  vr_issues :: "issue list"
  vr_validItemsCount :: "nat option"
  vr_totalItemsCount :: "nat option"

text \<open>POST /cart/validate: the store it leaves and the response.\<close>

definition post_cart_validate :: "db \<Rightarrow> user \<Rightarrow> db \<times> validate_response" where
  "post_cart_validate st u =
     (case carts st (user_id u) of
        None \<Rightarrow>
          (st, \<lparr>vr_valid = True, vr_issues = [], vr_validItemsCount = None,
                vr_totalItemsCount = None\<rparr>)
      | Some cart \<Rightarrow>
          if length (cart_items cart) = 0
          then (st, \<lparr>vr_valid = True, vr_issues = [], vr_validItemsCount = None,
                     vr_totalItemsCount = None\<rparr>)
          else
            let (issues, validItems) = validate_items (products st) (cart_items cart) [] []
            in (st, \<lparr>vr_valid = (length issues = 0), vr_issues = issues,
                     vr_validItemsCount = Some (length validItems),
                     vr_totalItemsCount = Some (length (cart_items cart))\<rparr>))"

section \<open>Notions of the specification\<close>

text \<open>
  "Rounded to two decimal places": \<open>t\<close> is a whole number of hundredths and no other
  such number is nearer to \<open>y\<close>, a tie going to the larger one.
\<close>

definition rounded_to_2_places :: "rat \<Rightarrow> rat \<Rightarrow> bool" where
  "rounded_to_2_places y t \<longleftrightarrow>
     of_int \<lfloor>t * 100\<rfloor> = t * 100 \<and> y - 1 / 200 < t \<and> t \<le> y + 1 / 200"

text \<open>The subtotal the unit prices captured in the cart would give.\<close>

definition captured_subtotal :: "cart \<Rightarrow> rat" where
  "captured_subtotal c = (\<Sum>item\<leftarrow>cart_items c. ci_price item * of_int (ci_quantity item))"

text \<open>The five kinds of issue that the validate operation is said to report.\<close>

definition issue_kinds :: "string set" where
  "issue_kinds = {''product_not_found'', ''product_inactive'', ''out_of_stock'',
                  ''insufficient_stock'', ''price_changed''}"

text \<open>
  A reported price change is a drift beyond the tolerance 0.01 between the price captured
  on some line of the cart and the current price of its product plus the line's modifiers.
\<close>

definition drift_ok :: "(object_id \<rightharpoonup> product) \<Rightarrow> cart_item list \<Rightarrow> issue \<Rightarrow> bool" where
  "drift_ok ps items i =
     (case i of
        Price_changed itemId productName oldPrice newPrice \<Rightarrow>
          \<bar>newPrice - oldPrice\<bar> > 0.01
          \<and> (\<exists>item \<in> set items. \<exists>p. ps (ci_product item) = Some p \<and> itemId = ci_id item
                \<and> oldPrice = ci_price item
                \<and> newPrice = p_price p + (\<Sum>v\<leftarrow>ci_selectedVariants item. sv_priceModifier v))
      | _ \<Rightarrow> True)"

text \<open>
  A line is unavailable when its product is missing, or not active, or its tracked
  inventory quantity is below the line's quantity.
\<close>

definition line_unavailable :: "(object_id \<rightharpoonup> product) \<Rightarrow> cart_item \<Rightarrow> bool" where
  "line_unavailable ps item =
     (case ps (ci_product item) of
        None \<Rightarrow> True
      | Some p \<Rightarrow> p_status p \<noteq> ''active''
                 \<or> (inventory_trackQuantity p \<and> inventory_quantity p < ci_quantity item))"

text \<open>
  The variant selection of a line: its (name, value) pairs. A line's identity is its
  product with the selection taken as a collection without order, either counting how
  often a pair occurs (\<open>line_identity\<close>) or not (\<open>line_identity_set\<close>).
\<close>

definition selection :: "selected_variant list \<Rightarrow> (string \<times> string) list" where
  "selection svs = map (\<lambda>v. (sv_name v, sv_value v)) svs"

definition line_identity :: "cart_item \<Rightarrow> object_id \<times> (string \<times> string) multiset" where
  "line_identity item = (ci_product item, mset (selection (ci_selectedVariants item)))"

definition line_identity_set :: "cart_item \<Rightarrow> object_id \<times> (string \<times> string) set" where
  "line_identity_set item = (ci_product item, set (selection (ci_selectedVariants item)))"

text \<open>
  The carts that can ever exist: a new cart, and what the operations of the cart model
  and the trimming of GET /cart make of such a cart.
\<close>

inductive reachable_cart :: "cart \<Rightarrow> bool" where
  created: "reachable_cart (new_cart uid now)"
| added: "reachable_cart c \<Longrightarrow>
     reachable_cart (addItem c productId quantity selectedVariants price new_id now)"
| updated: "reachable_cart c \<Longrightarrow> updateItemQuantity c itemId quantity now = Inr c' \<Longrightarrow>
     reachable_cart c'"
| removed: "reachable_cart c \<Longrightarrow> reachable_cart (removeItem c itemId now)"
| cleared: "reachable_cart c \<Longrightarrow> reachable_cart (clearCart c now)"
| coupon_applied: "reachable_cart c \<Longrightarrow> reachable_cart (applyCoupon c couponCode discountAmount now)"
| coupon_removed: "reachable_cart c \<Longrightarrow> reachable_cart (removeCoupon c now)"
| trimmed: "reachable_cart c \<Longrightarrow>
     reachable_cart (cart_save now (c\<lparr>cart_items := filter (item_valid ps) (cart_items c)\<rparr>))"

text \<open>
  The invariant behind the merge: no line is matched, by the predicate of \<open>addItem\<close>,
  by the product and selection of a line that comes after it.
\<close>

fun no_earlier_match :: "cart_item list \<Rightarrow> bool" where
  "no_earlier_match [] = True"
| "no_earlier_match (x # xs) =
     ((\<forall>y \<in> set xs. \<not> same_line (ci_product y) (ci_selectedVariants y) x)
      \<and> no_earlier_match xs)"

section \<open>Example stores\<close>

text \<open>One customer, one product priced 120 with five in stock, one line in the cart.\<close>

definition ex_product :: product where
  "ex_product =
     \<lparr>p_name = ''Lamp'', p_price = 120, p_images = [''lamp.png''], p_variants = [],
      inventory_quantity = 5, inventory_trackQuantity = True, p_status = ''active''\<rparr>"

definition ex_cart :: cart where
  "ex_cart =
     \<lparr>cart_user = 7,
      cart_items = [\<lparr>ci_id = 1, ci_product = 3, ci_quantity = 1, ci_selectedVariants = [],
                     ci_price = 120, ci_addedAt = 0\<rparr>],
      cart_couponCode = None, cart_discount = 0, cart_lastActivity = 0\<rparr>"

definition ex_db :: db where
  "ex_db = \<lparr>products = [3 \<mapsto> ex_product], carts = [7 \<mapsto> ex_cart], orders = Map.empty\<rparr>"

definition ex_user :: user where
  "ex_user = \<lparr>user_id = 7, user_role = ''customer''\<rparr>"

text \<open>The order of that cart, as a store holds it once it is numbered.\<close>

definition ex_order :: order where
  "ex_order =
     \<lparr>o_user = 7, o_orderNumber = Some ''ORD-1'',
      o_items = [\<lparr>oi_product = 3, oi_name = ''Lamp'', oi_image = ''lamp.png'',
                  oi_price = 120, oi_quantity = 1, oi_selectedVariants = []\<rparr>],
      o_pricing = \<lparr>pr_subtotal = 120, pr_shipping = 0, pr_tax = 10.20, pr_discount = 0,
                   pr_total = 130.20\<rparr>,
      o_payment = \<lparr>pay_method = ''stripe'', pay_status = ''pending'',
                   pay_transactionId = None, pay_paidAt = None, pay_paymentIntentId = None\<rparr>,
      o_status = ''pending'', o_actualDelivery = None, o_statusHistory = [],
      o_couponCode = None\<rparr>"

text \<open>The document that POST /orders builds from \<open>ex_cart\<close>: that order, unnumbered.\<close>

definition ex_order_doc :: order where
  "ex_order_doc = ex_order\<lparr>o_orderNumber := None\<rparr>"

lemmas ex_defs =
  ex_product_def ex_cart_def ex_db_def ex_user_def ex_order_def ex_order_doc_def

text \<open>The same store after an admin has raised the product's price to 150.\<close>

definition ex_repriced_db :: db where
  "ex_repriced_db = ex_db\<lparr>products := [3 \<mapsto> ex_product\<lparr>p_price := 150\<rparr>]\<rparr>"

definition ex_repriced_order_doc :: order where
  "ex_repriced_order_doc =
     ex_order_doc
       \<lparr>o_items := [\<lparr>oi_product = 3, oi_name = ''Lamp'', oi_image = ''lamp.png'',
                     oi_price = 150, oi_quantity = 1, oi_selectedVariants = []\<rparr>],
        o_pricing := \<lparr>pr_subtotal = 150, pr_shipping = 0, pr_tax = 12.75,
                      pr_discount = 0, pr_total = 162.75\<rparr>\<rparr>"

text \<open>
  A store that holds the order of \<open>ex_cart\<close>, numbered, paid (at time 60) and
  shipped (at time 70), and the same with the paid order still only confirmed.
\<close>

definition ex_paid_order :: order where
  "ex_paid_order =
     ex_order\<lparr>o_payment := \<lparr>pay_method = ''stripe'', pay_status = ''completed'',
                            pay_transactionId = Some ''pi_1'', pay_paidAt = Some 60,
                            pay_paymentIntentId = Some ''pi_1''\<rparr>,
              o_status := ''shipped'',
              o_statusHistory :=
                [\<lparr>he_status = ''confirmed'', he_note = ''Payment received'',
                  he_updatedBy = None, he_updatedAt = 60\<rparr>,
                 \<lparr>he_status = ''shipped'', he_note = ''Tracking information added'',
                  he_updatedBy = Some 1, he_updatedAt = 70\<rparr>]\<rparr>"

definition ex_paid_db :: db where
  "ex_paid_db =
     \<lparr>products = [3 \<mapsto> ex_product\<lparr>inventory_quantity := 4\<rparr>],
      carts = [7 \<mapsto> clearCart ex_cart 50], orders = [9 \<mapsto> ex_paid_order]\<rparr>"

definition ex_confirmed_order :: order where
  "ex_confirmed_order =
     ex_paid_order\<lparr>o_status := ''confirmed'',
                   o_statusHistory :=
                     [\<lparr>he_status = ''confirmed'', he_note = ''Payment received'',
                       he_updatedBy = None, he_updatedAt = 60\<rparr>]\<rparr>"

definition ex_confirmed_db :: db where
  "ex_confirmed_db = ex_paid_db\<lparr>orders := [9 \<mapsto> ex_confirmed_order]\<rparr>"

definition ex_intent :: payment_intent where
  "ex_intent = \<lparr>pi_id = ''pi_1'', pi_status = ''succeeded'', pi_orderId = 9\<rparr>"

definition ex_admin :: user where
  "ex_admin = \<lparr>user_id = 1, user_role = ''admin''\<rparr>"

lemmas ex_paid_defs =
  ex_paid_db_def ex_paid_order_def ex_confirmed_db_def ex_confirmed_order_def ex_intent_def
  ex_admin_def

text \<open>The example store with the product sold out.\<close>

definition ex_soldout_db :: db where
  "ex_soldout_db = ex_db\<lparr>products := [3 \<mapsto> ex_product\<lparr>inventory_quantity := 0\<rparr>]\<rparr>"

text \<open>
  A product with a Size variant, and the carts after adding size M once and then adding
  a selection that names size M twice.
\<close>

definition ex_sized_product :: product where
  "ex_sized_product =
     ex_product\<lparr>p_variants :=
       [\<lparr>pv_name = ''Size'', pv_options = [\<lparr>vo_value = ''M'', vo_priceModifier = 5\<rparr>]\<rparr>]\<rparr>"

definition ex_sized_db :: db where
  "ex_sized_db = \<lparr>products = [3 \<mapsto> ex_sized_product], carts = Map.empty, orders = Map.empty\<rparr>"

definition ex_size_M :: selected_variant where
  "ex_size_M = \<lparr>sv_name = ''Size'', sv_value = ''M'', sv_priceModifier = 5\<rparr>"

definition ex_cart_M :: cart where
  "ex_cart_M = addItem (new_cart 7 10) 3 1 [ex_size_M] 125 1 10"

definition ex_cart_MM :: cart where
  "ex_cart_MM = addItem ex_cart_M 3 1 [ex_size_M, ex_size_M] 130 2 20"

lemmas ex_sized_defs =
  ex_sized_product_def ex_sized_db_def ex_size_M_def ex_cart_M_def ex_cart_MM_def

section \<open>Cart totals\<close>

lemma variantPrice_acc:
  "foldl (\<lambda>sum variant. sum + sv_priceModifier variant) a svs
     = a + sum_list (map sv_priceModifier svs)"
  by (induction svs arbitrary: a) (simp_all add: add.assoc)

lemma variantPrice_sum: "variantPrice svs = sum_list (map sv_priceModifier svs)"
  by (simp add: variantPrice_def variantPrice_acc)

lemma cart_subtotal_acc:
  "foldl (\<lambda>total item. total + f item) (a::rat) items = a + sum_list (map f items)"
  by (induction items arbitrary: a) (simp_all add: add.assoc)

text \<open>
  C6. For every cart the derived subtotal is the sum over the line items of
  (captured price + the sum of the line's variant price modifiers) times the quantity,
  and the derived total is the larger of zero and subtotal minus discount.
\<close>

theorem cart_subtotal_total:
  "cart_subtotal c =
     (\<Sum>item\<leftarrow>cart_items c.
        (ci_price item + (\<Sum>v\<leftarrow>ci_selectedVariants item. sv_priceModifier v))
          * of_int (ci_quantity item))
   \<and> cart_total c =
       max 0 ((\<Sum>item\<leftarrow>cart_items c.
                 (ci_price item + (\<Sum>v\<leftarrow>ci_selectedVariants item. sv_priceModifier v))
                   * of_int (ci_quantity item)) - cart_discount c)"
  by (simp add: cart_subtotal_def cart_total_def cart_subtotal_acc variantPrice_sum)

section \<open>Order creation\<close>

lemma floor_rat_numeral_div: "\<lfloor>numeral a / numeral b :: rat\<rfloor> = numeral a div numeral b"
  using floor_divide_of_int_eq [of "numeral a" "numeral b", where ?'a = rat] by simp

lemma round_near: "t = of_int (Math_round (y * 100)) / (100::rat) \<Longrightarrow> y - 1/200 < t \<and> t \<le> y + 1/200"
proof -
  assume t: "t = of_int (Math_round (y * 100)) / (100::rat)"
  let ?x = "y * 100 + 1 / 2"
  have lo: "of_int \<lfloor>?x\<rfloor> \<le> ?x" by (rule of_int_floor_le)
  have hi: "?x < of_int \<lfloor>?x\<rfloor> + 1" using floor_correct [of ?x] by simp
  have "t * 100 = of_int \<lfloor>?x\<rfloor>" using t by (simp add: Math_round_def)
  with lo hi show ?thesis by linarith
qed

lemma order_pricing_tax:
  "rounded_to_2_places ((subtotal + pr_shipping (order_pricing subtotal d)) * 0.085)
     (pr_tax (order_pricing subtotal d))"
proof -
  let ?y = "(subtotal + (if subtotal \<ge> 100 then 0 else 10)) * 0.085"
  let ?t = "of_int (Math_round (?y * 100)) / (100::rat)"
  have "?y - 1/200 < ?t \<and> ?t \<le> ?y + 1/200" by (rule round_near) simp
  moreover have "of_int \<lfloor>?t * 100\<rfloor> = ?t * 100" by simp
  ultimately show ?thesis
    by (simp add: rounded_to_2_places_def order_pricing_def Let_def)
qed

lemma inc_quantity_apply:
  "inc_quantity ps pid d q =
     (if q = pid then map_option (\<lambda>p. p\<lparr>inventory_quantity := inventory_quantity p + d\<rparr>) (ps q)
      else ps q)"
  by (simp add: inc_quantity_def split: option.splits)

lemma inc_fold_apply:
  "foldl (\<lambda>ps item. inc_quantity ps (oi_product item) (f item)) ps items pid =
     map_option (\<lambda>p. p\<lparr>inventory_quantity := inventory_quantity p
                        + (\<Sum>item\<leftarrow>items. if oi_product item = pid then f item else 0)\<rparr>)
       (ps pid)"
proof (induction items arbitrary: ps)
  case Nil
  show ?case by (cases "ps pid") simp_all
next
  case (Cons item items)
  have "foldl (\<lambda>ps item. inc_quantity ps (oi_product item) (f item)) ps (item # items) pid =
     map_option (\<lambda>p. p\<lparr>inventory_quantity := inventory_quantity p
                        + (\<Sum>item\<leftarrow>items. if oi_product item = pid then f item else 0)\<rparr>)
       (inc_quantity ps (oi_product item) (f item) pid)"
    by (simp only: foldl_Cons Cons.IH)
  also have "\<dots> = map_option (\<lambda>p. p\<lparr>inventory_quantity := inventory_quantity p
                        + (\<Sum>item\<leftarrow>item # items. if oi_product item = pid then f item else 0)\<rparr>)
       (ps pid)"
    unfolding inc_quantity_apply
    by (cases "ps pid"; cases "oi_product item = pid") (auto simp: add.assoc)
  finally show ?case .
qed

lemma restore_inventory_apply:
  "restore_inventory ps items pid =
     map_option (\<lambda>p. p\<lparr>inventory_quantity := inventory_quantity p
                        + (\<Sum>item\<leftarrow>items. if oi_product item = pid then oi_quantity item else 0)\<rparr>)
       (ps pid)"
  by (simp add: restore_inventory_def inc_fold_apply)

lemma order_lines_found:
  "order_lines ps items s acc = Inr (s', its) \<Longrightarrow> ci \<in> set items \<Longrightarrow>
     \<exists>p. ps (ci_product ci) = Some p"
proof (induction items arbitrary: s acc)
  case Nil then show ?case by simp
next
  case (Cons a items)
  from Cons.prems(1) obtain p where p: "ps (ci_product a) = Some p"
    by (cases "ps (ci_product a)") auto
  from Cons.prems(1) p obtain s1 acc1 where rest: "order_lines ps items s1 acc1 = Inr (s', its)"
    by (simp add: Let_def split: if_splits)
  show ?case
  proof (cases "ci = a")
    case True with p show ?thesis by blast
  next
    case False
    with Cons.prems(2) have "ci \<in> set items" by simp
    from Cons.IH[OF rest this] show ?thesis .
  qed
qed

lemma order_lines_lines:
  "order_lines ps items s acc = Inr (s', its) \<Longrightarrow>
     its = acc @ map (\<lambda>ci. \<lparr>oi_product = ci_product ci, oi_name = p_name (the (ps (ci_product ci))),
                      oi_image = first_image (the (ps (ci_product ci))),
                      oi_price = p_price (the (ps (ci_product ci))) + variantPrice (ci_selectedVariants ci),
                      oi_quantity = ci_quantity ci,
                      oi_selectedVariants = ci_selectedVariants ci\<rparr>) items"
proof (induction items arbitrary: s acc)
  case Nil then show ?case by simp
next
  case (Cons ci items)
  from Cons.prems obtain p where p: "ps (ci_product ci) = Some p"
    by (cases "ps (ci_product ci)") auto
  let ?price = "p_price p + variantPrice (ci_selectedVariants ci)"
  let ?line = "\<lparr>oi_product = ci_product ci, oi_name = p_name p,
                      oi_image = first_image p, oi_price = ?price,
                      oi_quantity = ci_quantity ci,
                      oi_selectedVariants = ci_selectedVariants ci\<rparr>"
  from Cons.prems p have rest: "order_lines ps items (s + ?price * of_int (ci_quantity ci)) (acc @ [?line]) = Inr (s', its)"
    by (simp add: Let_def split: if_splits)
  from Cons.IH[OF rest] p show ?case by simp
qed

lemma order_lines_subtotal:
  "order_lines ps items s acc = Inr (s', its) \<Longrightarrow>
     s' + (\<Sum>item\<leftarrow>acc. oi_price item * of_int (oi_quantity item))
       = s + (\<Sum>item\<leftarrow>its. oi_price item * of_int (oi_quantity item))"
proof (induction items arbitrary: s acc)
  case Nil then show ?case by simp
next
  case (Cons ci items)
  from Cons.prems obtain p where p: "ps (ci_product ci) = Some p"
    by (cases "ps (ci_product ci)") auto
  let ?price = "p_price p + variantPrice (ci_selectedVariants ci)"
  let ?line = "\<lparr>oi_product = ci_product ci, oi_name = p_name p,
                      oi_image = first_image p, oi_price = ?price,
                      oi_quantity = ci_quantity ci,
                      oi_selectedVariants = ci_selectedVariants ci\<rparr>"
  from Cons.prems p have rest: "order_lines ps items (s + ?price * of_int (ci_quantity ci)) (acc @ [?line]) = Inr (s', its)"
    by (simp add: Let_def split: if_splits)
  from Cons.IH[OF rest] show ?case by simp
qed

lemma order_lines_ignores_captured_price:
  "order_lines ps (map (\<lambda>ci. ci\<lparr>ci_price := f ci\<rparr>) items) s acc = order_lines ps items s acc"
  by (induction items arbitrary: s acc) (simp_all add: Let_def split: option.splits)

lemma new_order_Inr:
  assumes "new_order st u method = Inr (cart, doc)"
  obtains subtotal orderItems where
    "carts st (user_id u) = Some cart"
    "order_lines (products st) (cart_items cart) 0 [] = Inr (subtotal, orderItems)"
    "doc = \<lparr>o_user = user_id u, o_orderNumber = None, o_items = orderItems,
            o_pricing = order_pricing subtotal (cart_discount cart),
            o_payment = \<lparr>pay_method = method, pay_status = ''pending'',
                         pay_transactionId = None, pay_paidAt = None,
                         pay_paymentIntentId = None\<rparr>,
            o_status = ''pending'', o_actualDelivery = None,
            o_statusHistory = [], o_couponCode = cart_couponCode cart\<rparr>"
  using assms
  by (auto simp: new_order_def split: option.splits if_splits sum.splits)

lemma new_order_rejected:
  assumes "new_order st u method = Inr (cart, doc)"
  shows "o_orderNumber doc = None" and "\<not> order_validate doc"
proof -
  from assms show "o_orderNumber doc = None" by (rule new_order_Inr) simp
  then show "\<not> order_validate doc" by (simp add: order_validate_def)
qed

text \<open>
  Whatever the store and the request, POST /orders answers with an error and leaves the
  store as it was: the document it builds has no order number, so the save rejects it.
\<close>

lemma post_orders_saves_nothing:
  "fst (post_orders st u method new_id generated now) = st
   \<and> (\<exists>e. snd (post_orders st u method new_id generated now) = Inl e)"
proof (cases "new_order st u method")
  case (Inl e)
  then show ?thesis by (simp add: post_orders_def)
next
  case (Inr r)
  obtain cart doc where r: "r = (cart, doc)" by (cases r)
  with Inr have built: "new_order st u method = Inr (cart, doc)" by simp
  from built new_order_rejected(2)[OF built] show ?thesis
    by (simp add: post_orders_def)
qed

lemma ex_new_order: "new_order ex_db ex_user ''stripe'' = Inr (ex_cart, ex_order_doc)"
  by (simp add: new_order_def ex_defs order_pricing_def Math_round_def
        floor_rat_numeral_div or_zero_def variantPrice_def first_image_def Let_def)

text \<open>
  C1. The pricing of the claim is computed but never persisted. For the cart with one line
  of subtotal 120 and no discount, POST /orders builds the order document with shipping 0,
  tax 10.20 and total 130.20, the save rejects the document for its missing order number,
  and the handler answers 500 with no order in the store.
\<close>

theorem post_orders_pricing_not_persisted:
  "new_order ex_db ex_user ''stripe'' = Inr (ex_cart, ex_order_doc)
   \<and> o_pricing ex_order_doc =
       \<lparr>pr_subtotal = 120, pr_shipping = 0, pr_tax = 10.20, pr_discount = 0,
        pr_total = 130.20\<rparr>
   \<and> o_orderNumber ex_order_doc = None
   \<and> \<not> order_validate ex_order_doc
   \<and> snd (post_orders ex_db ex_user ''stripe'' 9 ''ORD-1'' 50) = Inl InternalError
   \<and> http_status InternalError = 500
   \<and> orders (fst (post_orders ex_db ex_user ''stripe'' 9 ''ORD-1'' 50)) 9 = None"
  using ex_new_order
  by (simp add: post_orders_def order_validate_def ex_defs)

text \<open>
  C2. No order creation completes: on the same store POST /orders answers 500, the
  stock of the ordered product is still 5 and the cart still holds its line; neither the
  decrement nor the clearing of the cart is reached.
\<close>

theorem post_orders_no_decrement:
  "snd (post_orders ex_db ex_user ''stripe'' 9 ''ORD-1'' 50) = Inl InternalError
   \<and> map_option inventory_quantity (products ex_db 3) = Some 5
   \<and> map_option inventory_quantity
        (products (fst (post_orders ex_db ex_user ''stripe'' 9 ''ORD-1'' 50)) 3) = Some 5
   \<and> map_option (map ci_quantity \<circ> cart_items)
        (carts (fst (post_orders ex_db ex_user ''stripe'' 9 ''ORD-1'' 50)) 7) = Some [1]"
  using ex_new_order
  by (simp add: post_orders_def order_validate_def ex_defs)

lemma new_order_ignores_captured_price:
  assumes "carts st (user_id u) = Some cart"
  shows "map_sum id snd
           (new_order
              (st\<lparr>carts := (carts st)(user_id u \<mapsto>
                     cart\<lparr>cart_items := map (\<lambda>ci. ci\<lparr>ci_price := f ci\<rparr>) (cart_items cart)\<rparr>)\<rparr>)
              u method)
         = map_sum id snd (new_order st u method)"
  using assms
  by (simp add: new_order_def order_lines_ignores_captured_price
           split: sum.splits prod.splits)

lemma ex_repriced_new_order:
  "new_order ex_repriced_db ex_user ''stripe'' = Inr (ex_cart, ex_repriced_order_doc)"
  by (simp add: new_order_def ex_repriced_db_def ex_repriced_order_doc_def ex_defs
        order_pricing_def Math_round_def floor_rat_numeral_div or_zero_def variantPrice_def
        first_image_def Let_def)

text \<open>
  C3, as stated, fails: the cart captured the unit price 120 when the item was added, the
  product was then repriced to 150, and the order that POST /orders builds from the cart
  has line price 150 and subtotal 150, not the 120 that the captured price gives.
\<close>

theorem new_order_captured_price_counterexample:
  "carts ex_repriced_db (user_id ex_user) = Some ex_cart
   \<and> map ci_price (cart_items ex_cart) = [120]
   \<and> captured_subtotal ex_cart = 120
   \<and> new_order ex_repriced_db ex_user ''stripe'' = Inr (ex_cart, ex_repriced_order_doc)
   \<and> map oi_price (o_items ex_repriced_order_doc) = [150]
   \<and> pr_subtotal (o_pricing ex_repriced_order_doc) = 150
   \<and> pr_subtotal (o_pricing ex_repriced_order_doc) \<noteq> captured_subtotal ex_cart"
  using ex_repriced_new_order
  by (simp add: ex_repriced_db_def ex_repriced_order_doc_def ex_defs captured_subtotal_def)

text \<open>
  C3, amended. For every order that POST /orders builds from a cart, each order line's
  price is the product's price at that time plus the line's captured variant price
  modifiers, and the order subtotal is the sum of those line prices times the quantities;
  the unit price captured in the cart at add-time is not read: whatever the captured
  prices are, the same order is built. (Whether the order is then stored is left open.)
\<close>

theorem new_order_current_prices:
  assumes "new_order st u method = Inr (cart, doc)"
  shows "carts st (user_id u) = Some cart
     \<and> map (\<lambda>item. Some (oi_price item)) (o_items doc) =
         map (\<lambda>ci. map_option
                     (\<lambda>p. p_price p + (\<Sum>v\<leftarrow>ci_selectedVariants ci. sv_priceModifier v))
                     (products st (ci_product ci)))
           (cart_items cart)
     \<and> map oi_quantity (o_items doc) = map ci_quantity (cart_items cart)
     \<and> pr_subtotal (o_pricing doc) =
         (\<Sum>item\<leftarrow>o_items doc. oi_price item * of_int (oi_quantity item))
     \<and> (\<forall>f. map_sum id snd
           (new_order
              (st\<lparr>carts := (carts st)(user_id u \<mapsto>
                     cart\<lparr>cart_items := map (\<lambda>ci. ci\<lparr>ci_price := f ci\<rparr>) (cart_items cart)\<rparr>)\<rparr>)
              u method) = Inr doc)"
proof -
  from assms obtain subtotal orderItems where
    c: "carts st (user_id u) = Some cart"
    and ol: "order_lines (products st) (cart_items cart) 0 [] = Inr (subtotal, orderItems)"
    and items: "o_items doc = orderItems"
    and pr: "o_pricing doc = order_pricing subtotal (cart_discount cart)"
    by (rule new_order_Inr) simp
  have found: "\<And>ci. ci \<in> set (cart_items cart) \<Longrightarrow> \<exists>p. products st (ci_product ci) = Some p"
    using order_lines_found[OF ol] by blast
  have lines: "orderItems = map (\<lambda>ci. \<lparr>oi_product = ci_product ci, oi_name = p_name (the (products st (ci_product ci))),
                      oi_image = first_image (the (products st (ci_product ci))),
                      oi_price = p_price (the (products st (ci_product ci))) + variantPrice (ci_selectedVariants ci),
                      oi_quantity = ci_quantity ci,
                      oi_selectedVariants = ci_selectedVariants ci\<rparr>) (cart_items cart)"
    using order_lines_lines[OF ol] by simp
  have prices: "map (\<lambda>item. Some (oi_price item)) orderItems =
         map (\<lambda>ci. map_option
                     (\<lambda>p. p_price p + (\<Sum>v\<leftarrow>ci_selectedVariants ci. sv_priceModifier v))
                     (products st (ci_product ci)))
           (cart_items cart)"
    unfolding lines by (auto simp: variantPrice_sum dest!: found)
  have qty: "map oi_quantity orderItems = map ci_quantity (cart_items cart)"
    unfolding lines by (simp add: comp_def)
  have sub: "pr_subtotal (o_pricing doc) = (\<Sum>item\<leftarrow>orderItems. oi_price item * of_int (oi_quantity item))"
    using order_lines_subtotal[OF ol] by (simp add: pr order_pricing_def Let_def)
  have indep: "\<forall>f. map_sum id snd
           (new_order
              (st\<lparr>carts := (carts st)(user_id u \<mapsto>
                     cart\<lparr>cart_items := map (\<lambda>ci. ci\<lparr>ci_price := f ci\<rparr>) (cart_items cart)\<rparr>)\<rparr>)
              u method) = Inr doc"
    using new_order_ignores_captured_price[OF c] assms by simp
  show ?thesis using c prices qty sub indep unfolding items by blast
qed

theorem new_order_current_prices_witness:
  "new_order ex_repriced_db ex_user ''stripe'' = Inr (ex_cart, ex_repriced_order_doc)
   \<and> map_option p_price (products ex_repriced_db 3) = Some 150
   \<and> map oi_price (o_items ex_repriced_order_doc) = [150]
   \<and> pr_subtotal (o_pricing ex_repriced_order_doc) = 150"
  using ex_repriced_new_order new_order_current_prices [OF ex_repriced_new_order]
  by (simp add: ex_repriced_db_def ex_repriced_order_doc_def ex_defs)

section \<open>Payment reconciliation\<close>

lemma stripe_webhook_completed_noop:
  assumes "orders st (pi_orderId paymentIntent) = Some ord" "pay_status (o_payment ord) = ''completed''"
  shows "stripe_webhook st signature_ok ''payment_intent.succeeded'' paymentIntent now
           = (st, if signature_ok then Inr () else Inl WebhookSignature)"
  using assms by (simp add: stripe_webhook_def)

text \<open>
  C4. On an order whose payment is already completed, a repeated success webhook leaves
  the store as it is, but a repeated POST /payment/stripe/confirm for the same intent
  does not: it stamps \<open>paidAt\<close> again, sets the status of the shipped order back to
  confirmed and appends a third status-history entry.
\<close>

theorem stripe_confirm_repeated:
  "fst (stripe_webhook ex_paid_db True ''payment_intent.succeeded'' ex_intent 99) = ex_paid_db
   \<and> orders ex_paid_db 9 = Some ex_paid_order
   \<and> pay_status (o_payment ex_paid_order) = ''completed''
   \<and> snd (stripe_confirm ex_paid_db ex_user ex_intent 99) =
        Inr (ex_paid_order
              \<lparr>o_payment := (o_payment ex_paid_order)\<lparr>pay_paidAt := Some 99\<rparr>,
               o_status := ''confirmed'',
               o_statusHistory := o_statusHistory ex_paid_order @
                 [\<lparr>he_status = ''confirmed'', he_note = ''Payment received'',
                   he_updatedBy = None, he_updatedAt = 99\<rparr>]\<rparr>)
   \<and> orders (fst (stripe_confirm ex_paid_db ex_user ex_intent 99)) 9 \<noteq> orders ex_paid_db 9
   \<and> map_option (\<lambda>ord. length (o_statusHistory ord))
        (orders (fst (stripe_confirm ex_paid_db ex_user ex_intent 99)) 9) = Some 3
   \<and> length (o_statusHistory ex_paid_order) = 2"
  by (simp add: stripe_webhook_def stripe_confirm_def markAsPaid_def updateStatus_def
        ex_paid_defs ex_defs Let_def)

section \<open>Status changes and inventory\<close>

text \<open>
  C5, as stated, fails for the transition to returned: the paid order holds one unit of
  product 3, whose stock is 4, and after PUT /orders/:id/status with status returned, or
  after POST /payment/refund, the stock is still 4.
\<close>

theorem put_order_status_returned_counterexample:
  "orders ex_paid_db 9 = Some ex_paid_order
   \<and> pay_status (o_payment ex_paid_order) = ''completed''
   \<and> map oi_product (o_items ex_paid_order) = [3]
   \<and> map oi_quantity (o_items ex_paid_order) = [1]
   \<and> map_option inventory_quantity (products ex_paid_db 3) = Some 4
   \<and> map_sum id o_status (snd (put_order_status ex_paid_db ex_admin 9 ''returned'' [] 99)) = Inr ''returned''
   \<and> map_option inventory_quantity
        (products (fst (put_order_status ex_paid_db ex_admin 9 ''returned'' [] 99)) 3) = Some 4
   \<and> map_option inventory_quantity
        (products (fst (payment_refund ex_paid_db ex_admin 9 None 99)) 3) = Some 4"
  by (simp add: put_order_status_def payment_refund_def validStatuses_def updateStatus_def
        ex_paid_defs ex_defs Let_def)

lemma put_order_status_ok:
  assumes "user_role u = ''admin''" "status \<in> set validStatuses" "orders st oid = Some found"
  shows "put_order_status st u oid status note now =
      (let ord = updateStatus found status note (Some (user_id u)) now;
                 ps = (if status = ''cancelled'' \<and> pay_status (o_payment ord) = ''completed''
                       then restore_inventory (products st) (o_items ord)
                       else products st);
                 ord = (if status = ''delivered'' then ord\<lparr>o_actualDelivery := Some now\<rparr>
                        else ord)
             in (st\<lparr>products := ps, orders := (orders st)(oid \<mapsto> ord)\<rparr>, Inr ord))"
  using assms by (simp add: put_order_status_def)

text \<open>
  C5, amended. For every order whose payment status is completed, the admin's status
  change to cancelled adds, for every product, the captured quantities of the order's
  lines for that product to its inventory quantity; the status change to returned, by
  PUT /orders/:id/status or by POST /payment/refund, leaves the products as they are.
\<close>

theorem status_change_inventory:
  assumes "orders st oid = Some ord" and "pay_status (o_payment ord) = ''completed''"
    and "user_role u = ''admin''"
  shows "(\<forall>pid. products (fst (put_order_status st u oid ''cancelled'' note now)) pid =
            map_option (\<lambda>p. p\<lparr>inventory_quantity := inventory_quantity p
                + (\<Sum>item\<leftarrow>o_items ord. if oi_product item = pid then oi_quantity item else 0)\<rparr>)
              (products st pid))
       \<and> products (fst (put_order_status st u oid ''returned'' note now)) = products st
       \<and> products (fst (payment_refund st u oid reason now)) = products st"
proof -
  have c: "''cancelled'' \<in> set validStatuses" and r: "''returned'' \<in> set validStatuses"
    by (simp_all add: validStatuses_def)
  have 1: "\<forall>pid. products (fst (put_order_status st u oid ''cancelled'' note now)) pid =
            map_option (\<lambda>p. p\<lparr>inventory_quantity := inventory_quantity p
                + (\<Sum>item\<leftarrow>o_items ord. if oi_product item = pid then oi_quantity item else 0)\<rparr>)
              (products st pid)"
    using assms(2)
    by (simp add: put_order_status_ok[OF assms(3) c assms(1)] updateStatus_def Let_def
          restore_inventory_apply)
  have 2: "products (fst (put_order_status st u oid ''returned'' note now)) = products st"
    by (simp add: put_order_status_ok[OF assms(3) r assms(1)] Let_def)
  have 3: "products (fst (payment_refund st u oid reason now)) = products st"
    using assms by (simp add: payment_refund_def Let_def)
  from 1 2 3 show ?thesis by blast
qed

theorem status_change_inventory_witness:
  "orders ex_paid_db 9 = Some ex_paid_order
   \<and> pay_status (o_payment ex_paid_order) = ''completed''
   \<and> user_role ex_admin = ''admin''
   \<and> map_option inventory_quantity (products ex_paid_db 3) = Some 4
   \<and> map_option inventory_quantity
        (products (fst (put_order_status ex_paid_db ex_admin 9 ''cancelled'' [] 99)) 3) = Some 5
   \<and> products (fst (put_order_status ex_paid_db ex_admin 9 ''returned'' [] 99))
        = products ex_paid_db"
proof -
  have h1: "orders ex_paid_db 9 = Some ex_paid_order"
    and h2: "pay_status (o_payment ex_paid_order) = ''completed''"
    and h3: "user_role ex_admin = ''admin''"
    by (simp_all add: ex_paid_defs ex_defs)
  from status_change_inventory [OF h1 h2 h3, of "[]" 99 None]
  show ?thesis using h1 h2 h3 by (simp add: ex_paid_defs ex_defs)
qed

lemma post_order_cancel_Inr:
  assumes "snd (post_order_cancel st u oid reason now) = Inr ord'"
  obtains found where "orders st oid = Some found"
    "user_role u \<noteq> ''admin'' \<longrightarrow> o_user found = user_id u"
    "o_status found \<in> set cancelableStatuses"
    "ord' = updateStatus found ''cancelled'' (reason_or reason ''Cancelled by user'') (Some (user_id u)) now"
    "fst (post_order_cancel st u oid reason now) =
       st\<lparr>products := (if pay_status (o_payment found) = ''completed''
                      then restore_inventory (products st) (o_items found)
                      else products st),
          orders := (orders st)(oid \<mapsto> ord')\<rparr>"
  using assms
  by (auto simp: post_order_cancel_def Let_def updateStatus_def split: option.splits if_splits)

text \<open>
  C8. A cancel (POST /orders/:id/cancel) succeeds only on an order the caller may see
  (their own, unless they are an admin) whose status is pending, confirmed or processing;
  it stores the order as cancelled and, when the payment was completed, adds to every
  product's inventory quantity the quantities of the order's lines for it. Any further
  cancel of that order by the caller fails as not cancellable and leaves the whole store,
  the inventory included, as the first cancel left it.
\<close>

theorem post_order_cancel_once:
  assumes "snd (post_order_cancel st u oid reason now) = Inr ord'"
  shows "\<exists>ord. orders st oid = Some ord
     \<and> (user_role u \<noteq> ''admin'' \<longrightarrow> o_user ord = user_id u)
     \<and> o_status ord \<in> {''pending'', ''confirmed'', ''processing''}
     \<and> orders (fst (post_order_cancel st u oid reason now)) oid = Some ord'
     \<and> o_status ord' = ''cancelled''
     \<and> (pay_status (o_payment ord) = ''completed'' \<longrightarrow>
          (\<forall>pid. products (fst (post_order_cancel st u oid reason now)) pid =
             map_option (\<lambda>p. p\<lparr>inventory_quantity := inventory_quantity p
                 + (\<Sum>item\<leftarrow>o_items ord. if oi_product item = pid then oi_quantity item else 0)\<rparr>)
               (products st pid)))
     \<and> (\<forall>reason2 now2.
           post_order_cancel (fst (post_order_cancel st u oid reason now)) u oid reason2 now2
             = (fst (post_order_cancel st u oid reason now), Inl (NotCancellable ''cancelled'')))"
proof -
  from assms obtain found where
    f: "orders st oid = Some found"
    and own: "user_role u \<noteq> ''admin'' \<longrightarrow> o_user found = user_id u"
    and stat: "o_status found \<in> set cancelableStatuses"
    and ord': "ord' = updateStatus found ''cancelled'' (reason_or reason ''Cancelled by user'') (Some (user_id u)) now"
    and st': "fst (post_order_cancel st u oid reason now) =
       st\<lparr>products := (if pay_status (o_payment found) = ''completed''
                      then restore_inventory (products st) (o_items found)
                      else products st),
          orders := (orders st)(oid \<mapsto> ord')\<rparr>"
    by (rule post_order_cancel_Inr)
  have s1: "o_status ord' = ''cancelled''" and u1: "o_user ord' = o_user found"
    by (simp_all add: ord' updateStatus_def)
  have again: "\<forall>reason2 now2.
           post_order_cancel (fst (post_order_cancel st u oid reason now)) u oid reason2 now2
             = (fst (post_order_cancel st u oid reason now), Inl (NotCancellable ''cancelled''))"
    unfolding st' using s1 u1 own
    by (auto simp: post_order_cancel_def cancelableStatuses_def)
  have restored: "pay_status (o_payment found) = ''completed'' \<longrightarrow>
          (\<forall>pid. products (fst (post_order_cancel st u oid reason now)) pid =
             map_option (\<lambda>p. p\<lparr>inventory_quantity := inventory_quantity p
                 + (\<Sum>item\<leftarrow>o_items found. if oi_product item = pid then oi_quantity item else 0)\<rparr>)
               (products st pid))"
    unfolding st' by (simp add: restore_inventory_apply)
  have "orders (fst (post_order_cancel st u oid reason now)) oid = Some ord'"
    unfolding st' by simp
  moreover have "o_status found \<in> {''pending'', ''confirmed'', ''processing''}"
    using stat by (simp add: cancelableStatuses_def)
  ultimately show ?thesis using f own s1 again restored by blast
qed

lemma ex_cancel:
  "snd (post_order_cancel ex_confirmed_db ex_user 9 None 99) =
     Inr (ex_confirmed_order
           \<lparr>o_status := ''cancelled'',
            o_statusHistory := o_statusHistory ex_confirmed_order @
              [\<lparr>he_status = ''cancelled'', he_note = ''Cancelled by user'',
                he_updatedBy = Some 7, he_updatedAt = 99\<rparr>]\<rparr>)"
  by (simp add: post_order_cancel_def cancelableStatuses_def updateStatus_def reason_or_def
        ex_paid_defs ex_defs Let_def)

theorem post_order_cancel_once_witness:
  "snd (post_order_cancel ex_confirmed_db ex_user 9 None 99) =
     Inr (ex_confirmed_order
           \<lparr>o_status := ''cancelled'',
            o_statusHistory := o_statusHistory ex_confirmed_order @
              [\<lparr>he_status = ''cancelled'', he_note = ''Cancelled by user'',
                he_updatedBy = Some 7, he_updatedAt = 99\<rparr>]\<rparr>)
   \<and> map_option inventory_quantity (products ex_confirmed_db 3) = Some 4
   \<and> map_option inventory_quantity
        (products (fst (post_order_cancel ex_confirmed_db ex_user 9 None 99)) 3) = Some 5
   \<and> post_order_cancel (fst (post_order_cancel ex_confirmed_db ex_user 9 None 99))
        ex_user 9 None 100
      = (fst (post_order_cancel ex_confirmed_db ex_user 9 None 99),
         Inl (NotCancellable ''cancelled''))"
  using ex_cancel post_order_cancel_once [OF ex_cancel]
  by (auto simp: ex_paid_defs ex_defs)

section \<open>Cart validation and cart fetch\<close>

lemma issue_type_kind: "issue_type i \<in> issue_kinds"
  by (cases i) (simp_all add: issue_kinds_def)

lemma validate_items_drift:
  "validate_items ps items issues validItems = (issues', validItems') \<Longrightarrow>
   \<forall>i \<in> set issues. drift_ok ps all i \<Longrightarrow> set items \<subseteq> set all \<Longrightarrow>
   \<forall>i \<in> set issues'. drift_ok ps all i"
proof (induction items arbitrary: issues validItems)
  case Nil
  then show ?case by simp
next
  case (Cons item rest)
  have mem: "item \<in> set all" and sub: "set rest \<subseteq> set all"
    using Cons.prems(3) by simp_all
  show ?case
  proof (cases "ps (ci_product item)")
    case None
    let ?issues = "issues @ [Product_not_found (ci_id item)]"
    from Cons.prems(1) None
    have run: "validate_items ps rest ?issues validItems = (issues', validItems')" by simp
    have ok: "\<forall>i \<in> set ?issues. drift_ok ps all i"
      using Cons.prems(2) by (simp add: drift_ok_def)
    from Cons.IH[OF run ok sub] show ?thesis .
  next
    case (Some product)
    show ?thesis
    proof (cases "p_status product \<noteq> ''active''")
      case True
      let ?issues = "issues @ [Product_inactive (ci_id item) (p_name product)]"
      from Cons.prems(1) Some True
      have run: "validate_items ps rest ?issues validItems = (issues', validItems')" by simp
      have ok: "\<forall>i \<in> set ?issues. drift_ok ps all i"
        using Cons.prems(2) by (simp add: drift_ok_def)
      from Cons.IH[OF run ok sub] show ?thesis .
    next
      case active: False
      show ?thesis
      proof (cases "inventory_trackQuantity product
                  \<and> inventory_quantity product < ci_quantity item
                  \<and> inventory_quantity product = 0")
        case True
        let ?issues = "issues @ [Out_of_stock (ci_id item) (p_name product)]"
        from Cons.prems(1) Some active True
        have run: "validate_items ps rest ?issues validItems = (issues', validItems')" by simp
        have ok: "\<forall>i \<in> set ?issues. drift_ok ps all i"
          using Cons.prems(2) by (simp add: drift_ok_def)
        from Cons.IH[OF run ok sub] show ?thesis .
      next
        case False
        let ?issues1 = "(if inventory_trackQuantity product
                      \<and> inventory_quantity product < ci_quantity item
                   then issues @ [Insufficient_stock (ci_id item) (p_name product)
                                    (ci_quantity item) (inventory_quantity product)]
                   else issues)"
        let ?cur = "p_price product + variantPrice (ci_selectedVariants item)"
        let ?issues2 = "(if \<bar>?cur - ci_price item\<bar> > 0.01
                   then ?issues1 @ [Price_changed (ci_id item) (p_name product)
                                    (ci_price item) ?cur]
                   else ?issues1)"
        from Cons.prems(1) Some active False
        have run: "validate_items ps rest ?issues2 (validItems @ [item]) = (issues', validItems')"
          by (simp add: Let_def)
        have ok1: "\<forall>i \<in> set ?issues1. drift_ok ps all i"
          using Cons.prems(2) by (simp add: drift_ok_def)
        have new: "\<bar>?cur - ci_price item\<bar> > 0.01 \<Longrightarrow>
           drift_ok ps all (Price_changed (ci_id item) (p_name product) (ci_price item) ?cur)"
          using Some mem unfolding drift_ok_def variantPrice_sum by auto
        have ok2: "\<forall>i \<in> set ?issues2. drift_ok ps all i"
          using ok1 new by (cases "\<bar>?cur - ci_price item\<bar> > 0.01") simp_all
        from Cons.IH[OF run ok2 sub] show ?thesis .
      qed
    qed
  qed
qed

lemma post_cart_validate_issues:
  assumes "i \<in> set (vr_issues (snd (post_cart_validate st u)))"
  shows "\<exists>cart. carts st (user_id u) = Some cart \<and> drift_ok (products st) (cart_items cart) i"
proof (cases "carts st (user_id u)")
  case None
  with assms show ?thesis by (simp add: post_cart_validate_def)
next
  case (Some cart)
  show ?thesis
  proof (cases "length (cart_items cart) = 0")
    case True
    with assms Some show ?thesis by (simp add: post_cart_validate_def)
  next
    case False
    obtain issues validItems where
      run: "validate_items (products st) (cart_items cart) [] [] = (issues, validItems)"
      by (cases "validate_items (products st) (cart_items cart) [] []") blast
    from assms Some False run have "i \<in> set issues"
      by (simp add: post_cart_validate_def)
    moreover have "\<forall>i \<in> set issues. drift_ok (products st) (cart_items cart) i"
      by (rule validate_items_drift[OF run]) simp_all
    ultimately show ?thesis using Some by blast
  qed
qed

text \<open>
  C9. POST /cart/validate leaves the store exactly as it was, and every issue it
  returns is of one of the kinds product_not_found, product_inactive, out_of_stock,
  insufficient_stock, price_changed, a price_changed issue reporting a drift of more than
  0.01 between a line's captured price and its current price.
\<close>

theorem post_cart_validate_read_only:
  "fst (post_cart_validate st u) = st
   \<and> (\<forall>i \<in> set (vr_issues (snd (post_cart_validate st u))).
         issue_type i \<in> issue_kinds
         \<and> (\<exists>cart. carts st (user_id u) = Some cart
               \<and> drift_ok (products st) (cart_items cart) i))"
proof -
  have "fst (post_cart_validate st u) = st"
    by (simp add: post_cart_validate_def split: option.splits prod.splits)
  then show ?thesis
    using issue_type_kind post_cart_validate_issues by blast
qed

theorem post_cart_validate_read_only_witness:
  "fst (post_cart_validate ex_repriced_db ex_user) = ex_repriced_db
   \<and> vr_issues (snd (post_cart_validate ex_repriced_db ex_user))
       = [Price_changed 1 ''Lamp'' 120 150]
   \<and> issue_type (Price_changed 1 ''Lamp'' 120 150) = ''price_changed''
   \<and> drift_ok (products ex_repriced_db) (cart_items ex_cart) (Price_changed 1 ''Lamp'' 120 150)"
proof -
  have run: "vr_issues (snd (post_cart_validate ex_repriced_db ex_user))
       = [Price_changed 1 ''Lamp'' 120 150]"
    by (simp add: post_cart_validate_def ex_repriced_db_def ex_defs variantPrice_def Let_def)
  have c: "carts ex_repriced_db (user_id ex_user) = Some ex_cart"
    by (simp add: ex_repriced_db_def ex_defs)
  from post_cart_validate_read_only [of ex_repriced_db ex_user]
  show ?thesis unfolding run using c by simp
qed

lemma item_valid_iff: "item_valid ps item \<longleftrightarrow> \<not> line_unavailable ps item"
  by (auto simp: item_valid_def line_unavailable_def split: option.splits)

lemma filter_same_length: "length (filter P xs) = length xs \<Longrightarrow> filter P xs = xs"
proof (induction xs)
  case Nil show ?case by simp
next
  case (Cons x xs)
  have le: "length (filter P xs) \<le> length xs" by (rule length_filter_le)
  show ?case
  proof (cases "P x")
    case True with Cons show ?thesis by simp
  next
    case False with Cons.prems le show ?thesis by simp
  qed
qed

text \<open>
  C10. GET /cart on a stored cart answers with the cart trimmed of every line whose
  product is missing, not active, or short of tracked stock, and nothing else (the
  response is the cart); the trimmed cart is the one stored afterwards, so whenever such a
  line exists the stored cart changes.
\<close>

theorem get_cart_trims:
  assumes "carts st (user_id u) = Some cart"
  shows "cart_items (snd (get_cart st u now)) =
           filter (\<lambda>item. \<not> line_unavailable (products st) item) (cart_items cart)
     \<and> carts (fst (get_cart st u now)) (user_id u) = Some (snd (get_cart st u now))
     \<and> products (fst (get_cart st u now)) = products st
     \<and> orders (fst (get_cart st u now)) = orders st
     \<and> ((\<exists>item \<in> set (cart_items cart). line_unavailable (products st) item) \<longrightarrow>
          carts (fst (get_cart st u now)) (user_id u) \<noteq> carts st (user_id u)
          \<and> length (cart_items (snd (get_cart st u now))) < length (cart_items cart))"
proof -
  let ?valid = "filter (item_valid (products st)) (cart_items cart)"
  have flt: "?valid = filter (\<lambda>item. \<not> line_unavailable (products st) item) (cart_items cart)"
    by (rule filter_cong) (simp_all add: item_valid_iff)
  show ?thesis
  proof (cases "length ?valid \<noteq> length (cart_items cart)")
    case True
    have res: "get_cart st u now =
        (st\<lparr>carts := (carts st)(user_id u \<mapsto> cart_save now (cart\<lparr>cart_items := ?valid\<rparr>))\<rparr>,
         cart_save now (cart\<lparr>cart_items := ?valid\<rparr>))"
      using assms True by (simp add: get_cart_def Let_def)
    have "length ?valid < length (cart_items cart)"
      using True length_filter_le[of "item_valid (products st)" "cart_items cart"] by linarith
    then have "cart_items (cart_save now (cart\<lparr>cart_items := ?valid\<rparr>)) \<noteq> cart_items cart"
      by (auto simp: cart_save_def)
    then have "cart_save now (cart\<lparr>cart_items := ?valid\<rparr>) \<noteq> cart"
      by metis
    then show ?thesis
      using assms \<open>length ?valid < length (cart_items cart)\<close>
      unfolding res flt[symmetric] by (simp add: cart_save_def)
  next
    case False
    then have same: "?valid = cart_items cart" by (simp add: filter_same_length)
    have res: "get_cart st u now = (st, cart)"
      using assms False by (simp add: get_cart_def Let_def)
    have none: "\<not> (\<exists>item \<in> set (cart_items cart). line_unavailable (products st) item)"
    proof
      assume "\<exists>item \<in> set (cart_items cart). line_unavailable (products st) item"
      then obtain item where "item \<in> set (cart_items cart)" "\<not> item_valid (products st) item"
        by (auto simp: item_valid_iff)
      then have "length ?valid < length (cart_items cart)" by (rule length_filter_less)
      with same show False by simp
    qed
    show ?thesis unfolding res using assms none same flt by simp
  qed
qed

theorem get_cart_trims_witness:
  "carts ex_soldout_db (user_id ex_user) = Some ex_cart
   \<and> length (cart_items ex_cart) = 1
   \<and> list_ex (line_unavailable (products ex_soldout_db)) (cart_items ex_cart)
   \<and> cart_items (snd (get_cart ex_soldout_db ex_user 80)) = []
   \<and> map_option cart_items (carts (fst (get_cart ex_soldout_db ex_user 80)) 7) = Some []"
proof -
  have c: "carts ex_soldout_db (user_id ex_user) = Some ex_cart"
    by (simp add: ex_soldout_db_def ex_defs)
  have bad: "list_ex (line_unavailable (products ex_soldout_db)) (cart_items ex_cart)"
    by (simp add: line_unavailable_def ex_soldout_db_def ex_defs)
  from get_cart_trims [OF c, of 80] bad
  show ?thesis using c by (auto simp: line_unavailable_def ex_soldout_db_def ex_defs)
qed

section \<open>Merging of cart lines\<close>

lemma selection_subset:
  "list_all (\<lambda>variant.
       list_ex (\<lambda>sv. sv_name sv = sv_name variant \<and> sv_value sv = sv_value variant) svs) xs
   \<longleftrightarrow> set (selection xs) \<subseteq> set (selection svs)"
proof (induction xs)
  case Nil show ?case by (simp add: selection_def)
next
  case (Cons x xs)
  have "list_ex (\<lambda>sv. sv_name sv = sv_name x \<and> sv_value sv = sv_value x) svs
        \<longleftrightarrow> (sv_name x, sv_value x) \<in> set (selection svs)"
    by (induction svs) (auto simp: selection_def)
  with Cons show ?case by (simp add: selection_def)
qed

lemma same_line_iff:
  "same_line pid svs item \<longleftrightarrow>
     ci_product item = pid \<and> length (ci_selectedVariants item) = length svs
     \<and> set (selection (ci_selectedVariants item)) \<subseteq> set (selection svs)"
  unfolding same_line_def selection_subset by simp

lemma same_line_quantity [simp]:
  "same_line pid svs (item\<lparr>ci_quantity := q\<rparr>) = same_line pid svs item"
  by (simp add: same_line_def)

lemma same_line_mset:
  assumes "ci_product item = pid" "mset (selection (ci_selectedVariants item)) = mset (selection svs)"
  shows "same_line pid svs item"
proof -
  from assms(2) have "set (selection (ci_selectedVariants item)) = set (selection svs)"
    by (rule mset_eq_setD)
  moreover from assms(2) have "length (selection (ci_selectedVariants item)) = length (selection svs)"
    by (rule mset_eq_length)
  ultimately show ?thesis using assms(1) by (simp add: same_line_iff selection_def)
qed

lemma same_line_transfer:
  assumes "same_line pid svs x" "mset (selection svs') = mset (selection svs)"
  shows "same_line pid svs' x"
proof -
  from assms(2) have "set (selection svs') = set (selection svs)" by (rule mset_eq_setD)
  moreover from assms(2) have "length (selection svs') = length (selection svs)"
    by (rule mset_eq_length)
  ultimately show ?thesis using assms(1) by (simp add: same_line_iff selection_def)
qed

lemma findIndex_None: "findIndex P xs = None \<longleftrightarrow> (\<forall>x \<in> set xs. \<not> P x)"
  by (induction xs) auto

lemma findIndex_Some:
  "findIndex P xs = Some i \<longleftrightarrow> i < length xs \<and> P (xs ! i) \<and> (\<forall>k < i. \<not> P (xs ! k))"
proof (induction xs arbitrary: i)
  case Nil show ?case by simp
next
  case (Cons x xs)
  show ?case
  proof (cases "P x")
    case True
    then show ?thesis by (cases i) auto
  next
    case False
    show ?thesis
    proof (cases i)
      case 0 with False show ?thesis by auto
    next
      case (Suc j)
      have "(\<forall>k < Suc j. \<not> P ((x # xs) ! k)) \<longleftrightarrow> (\<forall>k < j. \<not> P (xs ! k))"
        using False by (auto simp: less_Suc_eq_0_disj)
      with False Suc Cons.IH[of j] show ?thesis by auto
    qed
  qed
qed

lemma no_earlier_match_nth:
  "no_earlier_match xs \<Longrightarrow> i < j \<Longrightarrow> j < length xs \<Longrightarrow>
     \<not> same_line (ci_product (xs ! j)) (ci_selectedVariants (xs ! j)) (xs ! i)"
proof (induction xs arbitrary: i j)
  case Nil then show ?case by simp
next
  case (Cons x xs)
  from Cons.prems(2) obtain j' where j: "j = Suc j'" by (cases j) auto
  show ?case
  proof (cases i)
    case 0
    with Cons.prems j show ?thesis by auto
  next
    case (Suc i')
    with Cons.prems j Cons.IH[of i' j'] show ?thesis by auto
  qed
qed

lemma no_earlier_match_append:
  "no_earlier_match (xs @ [y]) \<longleftrightarrow>
     no_earlier_match xs \<and> (\<forall>x \<in> set xs. \<not> same_line (ci_product y) (ci_selectedVariants y) x)"
  by (induction xs) auto

lemma no_earlier_match_filter: "no_earlier_match xs \<Longrightarrow> no_earlier_match (filter P xs)"
  by (induction xs) auto

lemma no_earlier_match_cong:
  "map ci_product xs = map ci_product ys \<Longrightarrow>
   map ci_selectedVariants xs = map ci_selectedVariants ys \<Longrightarrow>
   no_earlier_match xs = no_earlier_match ys"
proof (induction xs arbitrary: ys)
  case Nil then show ?case by simp
next
  case (Cons x xs)
  from Cons.prems(1) obtain y ys' where ys: "ys = y # ys'" by (cases ys) auto
  from Cons.prems ys have hd: "ci_product x = ci_product y"
      "ci_selectedVariants x = ci_selectedVariants y"
    and tl: "map ci_product xs = map ci_product ys'"
      "map ci_selectedVariants xs = map ci_selectedVariants ys'"
    by simp_all
  have keys: "(\<lambda>z. (ci_product z, ci_selectedVariants z)) ` set xs
            = (\<lambda>z. (ci_product z, ci_selectedVariants z)) ` set ys'"
  proof -
    have "map (\<lambda>z. (ci_product z, ci_selectedVariants z)) xs
        = map (\<lambda>z. (ci_product z, ci_selectedVariants z)) ys'"
      using tl by (simp add: list_eq_iff_nth_eq)
    then have "set (map (\<lambda>z. (ci_product z, ci_selectedVariants z)) xs)
        = set (map (\<lambda>z. (ci_product z, ci_selectedVariants z)) ys')" by simp
    then show ?thesis by simp
  qed
  have "(\<forall>z \<in> set xs. \<not> same_line (ci_product z) (ci_selectedVariants z) x)
      \<longleftrightarrow> (\<forall>k \<in> (\<lambda>z. (ci_product z, ci_selectedVariants z)) ` set xs.
             \<not> same_line (fst k) (snd k) x)"
    by simp
  also have "\<dots> \<longleftrightarrow> (\<forall>k \<in> (\<lambda>z. (ci_product z, ci_selectedVariants z)) ` set ys'.
             \<not> same_line (fst k) (snd k) y)"
    unfolding keys using hd by (simp add: same_line_def)
  also have "\<dots> \<longleftrightarrow> (\<forall>z \<in> set ys'. \<not> same_line (ci_product z) (ci_selectedVariants z) y)"
    by simp
  finally show ?case using Cons.IH[OF tl] ys by simp
qed

lemma no_earlier_match_quantity:
  "no_earlier_match (xs[i := (xs ! i)\<lparr>ci_quantity := q\<rparr>]) = no_earlier_match xs"
proof (cases "i < length xs")
  case True
  show ?thesis
    by (rule no_earlier_match_cong) (simp_all add: map_update True list_update_same_conv)
next
  case False
  then show ?thesis by (simp add: list_update_beyond)
qed

lemma addItem_items:
  "cart_items (addItem c productId quantity selectedVariants price new_id now) =
     (case findIndex (same_line productId selectedVariants) (cart_items c) of
        Some i \<Rightarrow> (cart_items c)
                [i := (cart_items c ! i)\<lparr>ci_quantity := ci_quantity (cart_items c ! i) + quantity\<rparr>]
      | None \<Rightarrow> cart_items c @
                [\<lparr>ci_id = new_id, ci_product = productId, ci_quantity = quantity,
                  ci_selectedVariants = selectedVariants, ci_price = price,
                  ci_addedAt = now\<rparr>])"
  by (simp add: addItem_def cart_save_def split: option.splits)

lemma addItem_no_earlier_match:
  assumes "no_earlier_match (cart_items c)"
  shows "no_earlier_match (cart_items (addItem c productId quantity selectedVariants price new_id now))"
proof (cases "findIndex (same_line productId selectedVariants) (cart_items c)")
  case None
  then have "\<forall>x \<in> set (cart_items c). \<not> same_line productId selectedVariants x"
    by (simp add: findIndex_None)
  with assms None show ?thesis
    by (simp add: addItem_items no_earlier_match_append)
next
  case (Some i)
  with assms show ?thesis
    by (simp add: addItem_items no_earlier_match_quantity)
qed

lemma updateItemQuantity_no_earlier_match:
  assumes "no_earlier_match (cart_items c)" "updateItemQuantity c itemId quantity now = Inr c'"
  shows "no_earlier_match (cart_items c')"
  using assms
  by (auto simp: updateItemQuantity_def cart_save_def pull_def no_earlier_match_filter
        no_earlier_match_quantity split: option.splits if_splits)

lemma reachable_no_earlier_match:
  "reachable_cart c \<Longrightarrow> no_earlier_match (cart_items c)"
proof (induction rule: reachable_cart.induct)
  case (created uid now)
  show ?case by (simp add: new_cart_def)
next
  case (added c productId quantity selectedVariants price new_id now)
  then show ?case by (simp add: addItem_no_earlier_match)
next
  case (updated c itemId quantity now c')
  then show ?case by (simp add: updateItemQuantity_no_earlier_match)
next
  case (removed c itemId now)
  then show ?case by (simp add: removeItem_def cart_save_def pull_def no_earlier_match_filter)
next
  case (cleared c now)
  show ?case by (simp add: clearCart_def cart_save_def)
next
  case (coupon_applied c couponCode discountAmount now)
  then show ?case by (simp add: applyCoupon_def cart_save_def)
next
  case (coupon_removed c now)
  then show ?case by (simp add: removeCoupon_def cart_save_def)
next
  case (trimmed c now ps)
  then show ?case by (simp add: cart_save_def no_earlier_match_filter)
qed

lemma no_earlier_match_distinct:
  "no_earlier_match xs \<Longrightarrow> distinct (map line_identity xs)"
proof (induction xs)
  case Nil show ?case by simp
next
  case (Cons x xs)
  have "line_identity x \<notin> line_identity ` set xs"
  proof
    assume "line_identity x \<in> line_identity ` set xs"
    then obtain y where y: "y \<in> set xs" "line_identity y = line_identity x" by auto
    then have "same_line (ci_product y) (ci_selectedVariants y) x"
      by (intro same_line_mset) (simp_all add: line_identity_def)
    with Cons.prems y(1) show False by simp
  qed
  with Cons show ?case by simp
qed

lemma findIndex_identical:
  assumes "no_earlier_match xs" "j < length xs"
    "line_identity (xs ! j) = (productId, mset (selection selectedVariants))"
  shows "findIndex (same_line productId selectedVariants) xs = Some j"
proof -
  from assms(3) have p: "ci_product (xs ! j) = productId"
    and m: "mset (selection (ci_selectedVariants (xs ! j))) = mset (selection selectedVariants)"
    by (simp_all add: line_identity_def)
  have here: "same_line productId selectedVariants (xs ! j)"
    using p m by (rule same_line_mset)
  have before: "\<forall>k < j. \<not> same_line productId selectedVariants (xs ! k)"
  proof (intro allI impI notI)
    fix k assume k: "k < j" and hit: "same_line productId selectedVariants (xs ! k)"
    from hit m have "same_line productId (ci_selectedVariants (xs ! j)) (xs ! k)"
      by (rule same_line_transfer)
    with p no_earlier_match_nth[OF assms(1) k assms(2)] show False by simp
  qed
  from here before assms(2) show ?thesis by (simp add: findIndex_Some)
qed

lemma ex_cart_M_items:
  "cart_items ex_cart_M =
     [\<lparr>ci_id = 1, ci_product = 3, ci_quantity = 1, ci_selectedVariants = [ex_size_M],
       ci_price = 125, ci_addedAt = 10\<rparr>]"
  by (simp add: ex_cart_M_def addItem_def new_cart_def cart_save_def)

text \<open>
  C7, as stated, fails when a selection repeats a pair. The cart holds one line for
  product 3 with the selection [Size = M]; POST /cart/items for product 3 with the
  selection [Size = M, Size = M] has the same product and the same set of selections, yet
  the lengths differ, so \<open>addItem\<close> appends a second line and the cart then holds two
  lines with the same product and the same selection set.
\<close>

theorem addItem_set_counterexample:
  "reachable_cart ex_cart_M
   \<and> snd (post_cart_items ex_sized_db ex_user 3 1 [(''Size'', ''M'')] 1 10) = Inr ex_cart_M
   \<and> snd (post_cart_items (ex_sized_db\<lparr>carts := [7 \<mapsto> ex_cart_M]\<rparr>) ex_user 3 1
            [(''Size'', ''M''), (''Size'', ''M'')] 2 20) = Inr ex_cart_MM
   \<and> map line_identity_set (cart_items ex_cart_M) = [(3, {(''Size'', ''M'')})]
   \<and> (3, set (selection [ex_size_M, ex_size_M])) = (3, {(''Size'', ''M'')})
   \<and> map line_identity_set (cart_items ex_cart_MM)
       = [(3, {(''Size'', ''M'')}), (3, {(''Size'', ''M'')})]
   \<and> map ci_quantity (cart_items ex_cart_MM) = [1, 1]
   \<and> \<not> distinct (map line_identity_set (cart_items ex_cart_MM))"
proof -
  have r: "reachable_cart ex_cart_M"
    unfolding ex_cart_M_def by (intro reachable_cart.added reachable_cart.created)
  have mm: "cart_items ex_cart_MM =
     [\<lparr>ci_id = 1, ci_product = 3, ci_quantity = 1, ci_selectedVariants = [ex_size_M],
       ci_price = 125, ci_addedAt = 10\<rparr>,
      \<lparr>ci_id = 2, ci_product = 3, ci_quantity = 1, ci_selectedVariants = [ex_size_M, ex_size_M],
       ci_price = 130, ci_addedAt = 20\<rparr>]"
    by (simp add: ex_cart_MM_def addItem_items ex_cart_M_items same_line_def)
  have p1: "snd (post_cart_items ex_sized_db ex_user 3 1 [(''Size'', ''M'')] 1 10) = Inr ex_cart_M"
    by (simp add: post_cart_items_def ex_sized_defs ex_defs or_zero_def Let_def)
  have p2: "snd (post_cart_items (ex_sized_db\<lparr>carts := [7 \<mapsto> ex_cart_M]\<rparr>) ex_user 3 1
            [(''Size'', ''M''), (''Size'', ''M'')] 2 20) = Inr ex_cart_MM"
    by (simp add: post_cart_items_def ex_sized_product_def ex_sized_db_def ex_size_M_def
          ex_cart_MM_def ex_defs or_zero_def Let_def)
  show ?thesis
    using r p1 p2
    by (simp add: mm ex_cart_M_items line_identity_set_def selection_def ex_size_M_def)
qed

text \<open>
  C7, amended. In every cart reached from a new cart by the cart operations, no two
  lines have the same product and the same selections counted with multiplicity; and an
  \<open>addItem\<close> call whose product and selections, counted with multiplicity and in any
  order, are those of an existing line adds the quantity to that line and changes nothing
  else: no line is appended.
\<close>

theorem addItem_merges_identical:
  assumes "reachable_cart c"
  shows "distinct (map line_identity (cart_items c))
     \<and> (\<forall>j < length (cart_items c).
           line_identity (cart_items c ! j) = (productId, mset (selection selectedVariants)) \<longrightarrow>
           cart_items (addItem c productId quantity selectedVariants price new_id now) =
             (cart_items c)
               [j := (cart_items c ! j)\<lparr>ci_quantity := ci_quantity (cart_items c ! j) + quantity\<rparr>])"
proof -
  from assms have inv: "no_earlier_match (cart_items c)" by (rule reachable_no_earlier_match)
  then have "distinct (map line_identity (cart_items c))" by (rule no_earlier_match_distinct)
  moreover have "\<forall>j < length (cart_items c).
           line_identity (cart_items c ! j) = (productId, mset (selection selectedVariants)) \<longrightarrow>
           cart_items (addItem c productId quantity selectedVariants price new_id now) =
             (cart_items c)
               [j := (cart_items c ! j)\<lparr>ci_quantity := ci_quantity (cart_items c ! j) + quantity\<rparr>]"
    by (simp add: addItem_items findIndex_identical[OF inv])
  ultimately show ?thesis by blast
qed

theorem addItem_merges_identical_witness:
  "reachable_cart ex_cart_M
   \<and> (0::nat) < length (cart_items ex_cart_M)
   \<and> line_identity (cart_items ex_cart_M ! 0) = (3, mset (selection [ex_size_M]))
   \<and> map ci_quantity (cart_items ex_cart_M) = [1]
   \<and> map ci_quantity (cart_items (addItem ex_cart_M 3 2 [ex_size_M] 125 2 20)) = [3]"
proof -
  have r: "reachable_cart ex_cart_M"
    unfolding ex_cart_M_def by (intro reachable_cart.added reachable_cart.created)
  have l: "(0::nat) < length (cart_items ex_cart_M)" by (simp add: ex_cart_M_items)
  have i: "line_identity (cart_items ex_cart_M ! 0) = (3, mset (selection [ex_size_M]))"
    by (simp add: ex_cart_M_items line_identity_def)
  from addItem_merges_identical [OF r, of 3 "[ex_size_M]" 2 125 2 20] l i
  have "cart_items (addItem ex_cart_M 3 2 [ex_size_M] 125 2 20) =
          (cart_items ex_cart_M)
            [0 := (cart_items ex_cart_M ! 0)\<lparr>ci_quantity := ci_quantity (cart_items ex_cart_M ! 0) + 2\<rparr>]"
    by blast
  then show ?thesis using r l i by (simp add: ex_cart_M_items)
qed

end
